theory Spec2Isabelle
  imports Main "HOL-Library.Word"
begin

unbundle bit_operations_syntax

section \<open>Bytes, hex text and the two digests\<close>

text \<open>
  A \<^verbatim>\<open>Buffer\<close>, a \<^verbatim>\<open>Uint8Array\<close> and a Solidity \<^verbatim>\<open>bytes32\<close> are lists of
  bytes. JavaScript strings are \<^typ>\<open>string\<close>; the strings this program handles (hex text,
  addresses, messages) are ASCII, so \<^verbatim>\<open>toUtf8Bytes\<close> is the list of character codes.
\<close>

type_synonym byte = "8 word"
type_synonym bytes = "byte list"

definition toUtf8Bytes :: "string \<Rightarrow> bytes" where
  "toUtf8Bytes s = map (\<lambda>c. word_of_int (of_char c)) s"

definition hexDigits :: string where
  "hexDigits = ''0123456789abcdef''"

definition hexByte :: "byte \<Rightarrow> string" where
  "hexByte b = [hexDigits ! nat (uint b div 16), hexDigits ! nat (uint b mod 16)]"

text \<open>\<^verbatim>\<open>digest('hex')\<close>, \<^verbatim>\<open>toString('hex')\<close>: lower-case hex text, two digits a byte.\<close>

definition toHex :: "bytes \<Rightarrow> string" where
  "toHex bs = concat (map hexByte bs)"

definition hexVal :: "char \<Rightarrow> int option" where
  "hexVal c =
     (let n = of_char c :: int in
      if 48 \<le> n \<and> n \<le> 57 then Some (n - 48)
      else if 97 \<le> n \<and> n \<le> 102 then Some (n - 87)
      else if 65 \<le> n \<and> n \<le> 70 then Some (n - 55)
      else None)"

text \<open>
  The bytes a hex text spells, pair of digits by pair, either case, up to the first pair
  that is not two hex digits; a single digit left at the end spells no byte. This is
  \<^verbatim>\<open>Buffer.from(text, 'hex')\<close>. A hash object is stricter about the length of the text
  it is fed: see \<open>hashUpdateHex\<close>.
\<close>

fun fromHex :: "string \<Rightarrow> bytes" where
  "fromHex (a # b # rest) =
     (case (hexVal a, hexVal b) of
        (Some h, Some l) \<Rightarrow> word_of_int (16 * h + l) # fromHex rest
      | _ \<Rightarrow> [])"
| "fromHex _ = []"

text \<open>
  \<^verbatim>\<open>hash.update(text, 'hex')\<close>: a text of odd length is refused (the call throws); a text
  of even length is decoded as above.
\<close>

definition hashUpdateHex :: "string \<Rightarrow> bytes option" where
  "hashUpdateHex s = (if odd (length s) then None else Some (fromHex s))"

fun chunks :: "nat \<Rightarrow> nat \<Rightarrow> 'a list \<Rightarrow> 'a list list" where
  "chunks 0 k xs = []"
| "chunks (Suc n) k xs = take k xs # chunks n k (drop k xs)"

subsection \<open>SHA-256 (FIPS 180-4)\<close>

text \<open>
  \<^verbatim>\<open>crypto.createHash('sha256')\<close>, Solidity's \<^verbatim>\<open>sha256\<close> and the script opcode
  \<^verbatim>\<open>OP_SHA256\<close> are this function. The 32-bit words are integers with the wrap-around
  written out.
\<close>

text \<open>
  The constants of the standard: the first 32 bits of the fractional parts of the square
  roots (initial hash value) and cube roots (round constants) of the first primes.
  \<open>root_floor k n\<close> is the integer part of the \<open>k\<close>-th root of \<open>n\<close>, for roots below
  \<open>2 ^ 35\<close>, found bit by bit from the top.
\<close>

definition is_prime :: "int \<Rightarrow> bool" where
  "is_prime n = (2 \<le> n \<and> list_all (\<lambda>d. d * d > n \<or> n mod d \<noteq> 0) [2..17])"

definition first_primes :: "int list" where
  "first_primes = filter is_prime [2..311]"

definition root_bit :: "nat \<Rightarrow> int \<Rightarrow> int \<Rightarrow> nat \<Rightarrow> int" where
  "root_bit k n x b = (if (x + 2 ^ b) ^ k \<le> n then x + 2 ^ b else x)"

definition root_floor :: "nat \<Rightarrow> int \<Rightarrow> int" where
  "root_floor k n = foldl (root_bit k n) 0 (rev [0..<35])"

definition frac_root32 :: "nat \<Rightarrow> int \<Rightarrow> int" where
  "frac_root32 k p = root_floor k (p * 2 ^ (32 * k)) mod 4294967296"

definition K256 :: "int list" where
  "K256 = map (frac_root32 3) first_primes"

definition H256 :: "int list" where
  "H256 = map (frac_root32 2) (take 8 first_primes)"

definition add32 :: "int \<Rightarrow> int \<Rightarrow> int" where
  "add32 a b = (a + b) mod 4294967296"

definition rotr32 :: "nat \<Rightarrow> int \<Rightarrow> int" where
  "rotr32 n x = x div 2 ^ n + (x mod 2 ^ n) * 2 ^ (32 - n)"

definition not32 :: "int \<Rightarrow> int" where
  "not32 x = 4294967295 - x"

definition be_int :: "bytes \<Rightarrow> int" where
  "be_int bs = foldl (\<lambda>acc b. 256 * acc + uint b) 0 bs"

definition be_bytes :: "nat \<Rightarrow> int \<Rightarrow> bytes" where
  "be_bytes n v = map (\<lambda>i. word_of_int (v div 256 ^ (n - 1 - i))) [0..<n]"

definition sha256_pad :: "bytes \<Rightarrow> bytes" where
  "sha256_pad m =
     m @ [0x80] @ replicate ((119 - length m mod 64) mod 64) 0 @ be_bytes 8 (8 * int (length m))"

fun sha256_schedule :: "nat \<Rightarrow> int list \<Rightarrow> int list" where
  "sha256_schedule 0 w = w"
| "sha256_schedule (Suc n) w =
     (let t = length w;
          w15 = w ! (t - 15); w2 = w ! (t - 2);
          s0 = rotr32 7 w15 XOR rotr32 18 w15 XOR (w15 div 2 ^ 3);
          s1 = rotr32 17 w2 XOR rotr32 19 w2 XOR (w2 div 2 ^ 10)
      in sha256_schedule n (w @ [add32 (add32 (add32 (w ! (t - 16)) s0) (w ! (t - 7))) s1]))"

definition sha256_round :: "int list \<Rightarrow> int \<times> int \<Rightarrow> int list" where
  "sha256_round st kw =
     (case st of
        [a, b, c, d, e, f, g, h] \<Rightarrow>
          (let S1 = rotr32 6 e XOR rotr32 11 e XOR rotr32 25 e;
               ch = (e AND f) XOR (not32 e AND g);
               t1 = add32 (add32 (add32 (add32 h S1) ch) (fst kw)) (snd kw);
               S0 = rotr32 2 a XOR rotr32 13 a XOR rotr32 22 a;
               mj = (a AND b) XOR (a AND c) XOR (b AND c);
               t2 = add32 S0 mj
           in [add32 t1 t2, a, b, c, add32 d t1, e, f, g])
      | _ \<Rightarrow> st)"

definition sha256_compress :: "int list \<Rightarrow> bytes \<Rightarrow> int list" where
  "sha256_compress h block =
     (let w = sha256_schedule 48 (map be_int (chunks 16 4 block))
      in map2 add32 h (foldl sha256_round h (zip K256 w)))"

definition sha256 :: "bytes \<Rightarrow> bytes" where
  "sha256 m =
     (let p = sha256_pad m
      in concat (map (be_bytes 4) (foldl sha256_compress H256 (chunks (length p div 64) 64 p))))"

subsection \<open>Keccak-256\<close>

text \<open>
  \<^verbatim>\<open>ethers.keccak256\<close>: the Keccak sponge with rate 136 bytes, padding \<^verbatim>\<open>0x01 .. 0x80\<close>
  and 32 bytes of output. The 64-bit lanes are integers, lane \<open>(x, y)\<close> at position
  \<open>x + 5 * y\<close>.
\<close>

definition keccak_rc :: "int list" where
  "keccak_rc = [
    0x0000000000000001, 0x0000000000008082, 0x800000000000808A, 0x8000000080008000,
    0x000000000000808B, 0x0000000080000001, 0x8000000080008081, 0x8000000000008009,
    0x000000000000008A, 0x0000000000000088, 0x0000000080008009, 0x000000008000000A,
    0x000000008000808B, 0x800000000000008B, 0x8000000000008089, 0x8000000000008003,
    0x8000000000008002, 0x8000000000000080, 0x000000000000800A, 0x800000008000000A,
    0x8000000080008081, 0x8000000000008080, 0x0000000080000001, 0x8000000080008008]"

definition keccak_rot :: "nat list" where
  "keccak_rot = [ 0,  1, 62, 28, 27,
                 36, 44,  6, 55, 20,
                  3, 10, 43, 25, 39,
                 41, 45, 15, 21,  8,
                 18,  2, 61, 56, 14]"

definition rotl64 :: "nat \<Rightarrow> int \<Rightarrow> int" where
  "rotl64 n x = (x mod 2 ^ (64 - n)) * 2 ^ n + x div 2 ^ (64 - n)"

definition not64 :: "int \<Rightarrow> int" where
  "not64 x = 18446744073709551615 - x"

definition keccak_theta :: "int list \<Rightarrow> int list" where
  "keccak_theta a =
     (let c = map (\<lambda>x. a ! x XOR a ! (x + 5) XOR a ! (x + 10) XOR a ! (x + 15) XOR a ! (x + 20))
                [0..<5];
          d = map (\<lambda>x. c ! ((x + 4) mod 5) XOR rotl64 1 (c ! ((x + 1) mod 5))) [0..<5]
      in map (\<lambda>i. a ! i XOR d ! (i mod 5)) [0..<25])"

definition keccak_rho_pi :: "int list \<Rightarrow> int list" where
  "keccak_rho_pi a =
     map (\<lambda>i. let x = i mod 5; y = i div 5; s = (x + 3 * y) mod 5 + 5 * x
               in rotl64 (keccak_rot ! s) (a ! s)) [0..<25]"

definition keccak_chi :: "int list \<Rightarrow> int list" where
  "keccak_chi a =
     map (\<lambda>i. let x = i mod 5; y = i div 5
               in a ! i XOR (not64 (a ! ((x + 1) mod 5 + 5 * y)) AND a ! ((x + 2) mod 5 + 5 * y)))
         [0..<25]"

definition keccak_round :: "int list \<Rightarrow> int \<Rightarrow> int list" where
  "keccak_round a rc =
     (let b = keccak_chi (keccak_rho_pi (keccak_theta a)) in (hd b XOR rc) # tl b)"

definition keccak_f :: "int list \<Rightarrow> int list" where
  "keccak_f a = foldl keccak_round a keccak_rc"

definition le_int :: "bytes \<Rightarrow> int" where
  "le_int bs = foldr (\<lambda>b acc. 256 * acc + uint b) bs 0"

definition le_bytes :: "nat \<Rightarrow> int \<Rightarrow> bytes" where
  "le_bytes n v = map (\<lambda>i. word_of_int (v div 256 ^ i)) [0..<n]"

definition keccak_pad :: "bytes \<Rightarrow> bytes" where
  "keccak_pad m =
     (let q = 136 - length m mod 136
      in if q = 1 then m @ [0x81] else m @ [0x01] @ replicate (q - 2) 0 @ [0x80])"

definition keccak_absorb :: "int list \<Rightarrow> bytes \<Rightarrow> int list" where
  "keccak_absorb st block =
     keccak_f (map2 (XOR) st (map le_int (chunks 17 8 block) @ replicate 8 0))"

definition keccak256 :: "bytes \<Rightarrow> bytes" where
  "keccak256 m =
     (let p = keccak_pad m;
          st = foldl keccak_absorb (replicate 25 0) (chunks (length p div 136) 136 p)
      in take 32 (concat (map (le_bytes 8) st)))"

section \<open>The account-chain escrow (contract EthEscrow)\<close>

type_synonym address = string

definition address0 :: address where
  "address0 = ''0x0000000000000000000000000000000000000000''"

text \<open>
  An address is its text in one fixed spelling. The ambient values a call reads are
  \<^verbatim>\<open>msg.sender\<close> and \<^verbatim>\<open>block.timestamp\<close>; the constructor, the one payable entry,
  also reads \<^verbatim>\<open>msg.value\<close>. A call of \<^verbatim>\<open>claim\<close> or \<^verbatim>\<open>refund\<close>, which are not payable,
  carries no value.

  A call that pays ether out depends on the account it pays as well: \<^verbatim>\<open>transfer\<close> reverts
  when the payee does not take the payment (a contract with no payable \<^verbatim>\<open>receive\<close> or
  \<^verbatim>\<open>fallback\<close>, or one that reverts or needs more than the 2300 gas \<^verbatim>\<open>transfer\<close> gives).
  \<open>refuses a\<close> is \<open>None\<close> for an account that takes a payment and \<open>Some d\<close> for one that
  does not, \<open>d\<close> the revert data the failed payment comes back with.
\<close>

record env =
  msg_sender :: address
  block_timestamp :: nat
  refuses :: "address \<Rightarrow> string option"

record payable_env = env +
  msg_value :: nat

record EthEscrow =
  deployer :: address
  recipient :: address
  hashlock :: bytes
  timeout :: nat
  amount :: nat
  claimed :: bool
  refunded :: bool

text \<open>
  What a successful call leaves behind besides the new storage: the events it emits and the
  value transfer it makes, in program order. The escrow's balance is at least \<open>amount\<close>
  from its construction until it pays out (nothing else of the contract sends ether), so a
  \<^verbatim>\<open>transfer\<close> of \<open>amount\<close> fails on the payee's side only.
\<close>

datatype effect =
  SecretRevealed bytes
  | Claimed address nat
  | Refunded address nat
  | Transfer address nat

text \<open>
  A failed \<^verbatim>\<open>require\<close> reverts the call with its message: \<open>Inl\<close> the message. A failed
  \<^verbatim>\<open>transfer\<close> reverts the call as well, with the payee's revert data, and every write
  and event of the call is undone with it.
\<close>

definition EthEscrow_constructor ::
    "payable_env \<Rightarrow> address \<Rightarrow> bytes \<Rightarrow> nat \<Rightarrow> string + EthEscrow" where
  "EthEscrow_constructor ev recipient' hashlock' timeout' =
     (if \<not> msg_value ev > 0 then Inl ''Must send ETH''
      else if \<not> recipient' \<noteq> address0 then Inl ''Invalid recipient''
      else if \<not> timeout' > block_timestamp ev then Inl ''Timeout must be in the future''
      else Inr \<lparr>deployer = msg_sender ev, recipient = recipient', hashlock = hashlock',
                timeout = timeout', amount = msg_value ev, claimed = False, refunded = False\<rparr>)"

text \<open>
  \<^verbatim>\<open>claim(bytes32 secret) external onlyRecipient notClaimed notRefunded\<close>: the modifiers
  run in the order they are written, then the body: the hashlock check, the write of
  \<open>claimed\<close>, the two events and the transfer to the recipient. \<^verbatim>\<open>abi.encodePacked\<close> of
  a \<^verbatim>\<open>bytes32\<close> is its 32 bytes.
\<close>

definition EthEscrow_claim :: "env \<Rightarrow> bytes \<Rightarrow> EthEscrow \<Rightarrow> string + EthEscrow \<times> effect list" where
  "EthEscrow_claim ev secret e =
     (if \<not> msg_sender ev = recipient e then Inl ''Only recipient can call this''
      else if \<not> \<not> claimed e then Inl ''Already claimed''
      else if \<not> \<not> refunded e then Inl ''Already refunded''
      else if \<not> sha256 secret = hashlock e then Inl ''Invalid secret''
      else
        (case refuses ev (recipient e) of
           Some d \<Rightarrow> Inl d
         | None \<Rightarrow>
             Inr (e\<lparr>claimed := True\<rparr>,
                  [SecretRevealed secret, Claimed (recipient e) (amount e),
                   Transfer (recipient e) (amount e)])))"

text \<open>\<^verbatim>\<open>refund() external onlyDeployer afterTimeout notClaimed notRefunded\<close>.\<close>

definition EthEscrow_refund :: "env \<Rightarrow> EthEscrow \<Rightarrow> string + EthEscrow \<times> effect list" where
  "EthEscrow_refund ev e =
     (if \<not> msg_sender ev = deployer e then Inl ''Only deployer can call this''
      else if \<not> block_timestamp ev \<ge> timeout e then Inl ''Timeout not yet reached''
      else if \<not> \<not> claimed e then Inl ''Already claimed''
      else if \<not> \<not> refunded e then Inl ''Already refunded''
      else
        (case refuses ev (deployer e) of
           Some d \<Rightarrow> Inl d
         | None \<Rightarrow>
             Inr (e\<lparr>refunded := True\<rparr>,
                  [Refunded (deployer e) (amount e), Transfer (deployer e) (amount e)])))"

text \<open>
  A sequence of calls on one escrow. A call that reverts leaves the storage as it was.
\<close>

datatype call = Claim env bytes | Refund env

fun call_result :: "call \<Rightarrow> EthEscrow \<Rightarrow> string + EthEscrow \<times> effect list" where
  "call_result (Claim ev secret) e = EthEscrow_claim ev secret e"
| "call_result (Refund ev) e = EthEscrow_refund ev e"

definition after_call :: "EthEscrow \<Rightarrow> call \<Rightarrow> EthEscrow" where
  "after_call e c = (case call_result c e of Inl _ \<Rightarrow> e | Inr (e', _) \<Rightarrow> e')"

definition after_calls :: "EthEscrow \<Rightarrow> call list \<Rightarrow> EthEscrow" where
  "after_calls e cs = foldl after_call e cs"

text \<open>The two messages of a call on an escrow that is already claimed or refunded.\<close>

definition already_settled :: "string \<Rightarrow> bool" where
  "already_settled msg = (msg = ''Already claimed'' \<or> msg = ''Already refunded'')"

section \<open>The escrow manager (class EthEscrowManager)\<close>

text \<open>
  The account chain as the manager sees it: the escrows deployed so far, by address, the
  timestamp of the block a transaction sent now is mined in, and the accounts that do not
  take a payment (\<open>refusing\<close>, read as \<open>refuses\<close> is).
\<close>

record chain =
  contracts :: "address \<rightharpoonup> EthEscrow"
  latest_timestamp :: nat
  refusing :: "address \<Rightarrow> string option"

text \<open>
  A manager call fails either because the contract reverts (with its message) or because the
  client library refuses to encode an argument before anything is sent.
\<close>

datatype eth_error = Reverted string | EncodingError

text \<open>\<^verbatim>\<open>ethers.zeroPadValue(data, 32)\<close>: pads on the left; data longer than 32 bytes is refused.\<close>

definition zeroPadValue :: "bytes \<Rightarrow> nat \<Rightarrow> bytes option" where
  "zeroPadValue d n = (if length d > n then None else Some (replicate (n - length d) 0 @ d))"

text \<open>
  A \<^verbatim>\<open>bytes32\<close> argument given as text: the prefix \<^verbatim>\<open>0x\<close> (or \<^verbatim>\<open>0X\<close>) and exactly 64
  hex digits.
\<close>

definition bytes32FromHex :: "string \<Rightarrow> bytes option" where
  "bytes32FromHex s =
     (if (take 2 s = ''0x'' \<or> take 2 s = ''0X'') \<and> length (drop 2 s) = 64
         \<and> list_all (\<lambda>c. hexVal c \<noteq> None) (drop 2 s)
      then Some (fromHex (drop 2 s)) else None)"

definition EthEscrowManager_generateHashlock :: "string \<Rightarrow> string" where
  "EthEscrowManager_generateHashlock s = ''0x'' @ toHex (keccak256 (toUtf8Bytes s))"

text \<open>
  \<^verbatim>\<open>deployEscrow(recipient, hashlock, timeout, ethAmount)\<close>, sent by \<open>signer\<close>; \<open>newAddress\<close>
  is the address the chain gives the new contract, \<open>wei\<close> is \<^verbatim>\<open>parseEther(ethAmount)\<close>.
  The hashlock must encode as a \<^verbatim>\<open>bytes32\<close>, the timeout and the value as
  \<^verbatim>\<open>uint256\<close>; address texts are taken to be well-formed.
\<close>

definition EthEscrowManager_deployEscrow ::
    "address \<Rightarrow> chain \<Rightarrow> address \<Rightarrow> address \<Rightarrow> string \<Rightarrow> int \<Rightarrow> int \<Rightarrow> eth_error + chain \<times> address" where
  "EthEscrowManager_deployEscrow signer ch newAddress recipient' hashlock' timeout' wei =
     (case bytes32FromHex hashlock' of
        None \<Rightarrow> Inl EncodingError
      | Some h \<Rightarrow>
          if timeout' < 0 \<or> 2 ^ 256 \<le> timeout' \<or> wei < 0 \<or> 2 ^ 256 \<le> wei
          then Inl EncodingError
          else
            (case EthEscrow_constructor
                    \<lparr>msg_sender = signer, block_timestamp = latest_timestamp ch,
                     refuses = refusing ch, msg_value = nat wei\<rparr>
                    recipient' h (nat timeout') of
               Inl msg \<Rightarrow> Inl (Reverted msg)
             | Inr e \<Rightarrow> Inr (ch\<lparr>contracts := (contracts ch)(newAddress \<mapsto> e)\<rparr>, newAddress)))"

text \<open>
  \<^verbatim>\<open>claim(contractAddress, secret)\<close>: the secret text is turned into a \<^verbatim>\<open>bytes32\<close> by
  \<^verbatim>\<open>zeroPadValue(toUtf8Bytes(secret), 32)\<close>. A transaction to an address that holds no
  contract is mined without effect.
\<close>

definition EthEscrowManager_claim ::
    "address \<Rightarrow> chain \<Rightarrow> address \<Rightarrow> string \<Rightarrow> eth_error + chain \<times> effect list" where
  "EthEscrowManager_claim signer ch contractAddress s =
     (case zeroPadValue (toUtf8Bytes s) 32 of
        None \<Rightarrow> Inl EncodingError
      | Some secretBytes \<Rightarrow>
          (case contracts ch contractAddress of
             None \<Rightarrow> Inr (ch, [])
           | Some e \<Rightarrow>
               (case EthEscrow_claim
                       \<lparr>msg_sender = signer, block_timestamp = latest_timestamp ch,
                        refuses = refusing ch\<rparr>
                       secretBytes e of
                  Inl msg \<Rightarrow> Inl (Reverted msg)
                | Inr (e', effs) \<Rightarrow>
                    Inr (ch\<lparr>contracts := (contracts ch)(contractAddress \<mapsto> e')\<rparr>, effs))))"

definition EthEscrowManager_refund ::
    "address \<Rightarrow> chain \<Rightarrow> address \<Rightarrow> eth_error + chain \<times> effect list" where
  "EthEscrowManager_refund signer ch contractAddress =
     (case contracts ch contractAddress of
        None \<Rightarrow> Inr (ch, [])
      | Some e \<Rightarrow>
          (case EthEscrow_refund
                  \<lparr>msg_sender = signer, block_timestamp = latest_timestamp ch,
                   refuses = refusing ch\<rparr> e of
             Inl msg \<Rightarrow> Inl (Reverted msg)
           | Inr (e', effs) \<Rightarrow>
               Inr (ch\<lparr>contracts := (contracts ch)(contractAddress \<mapsto> e')\<rparr>, effs)))"

text \<open>Time passes on the chain: the next transaction is mined at block time \<open>t\<close>.\<close>

definition at_block_time :: "nat \<Rightarrow> chain \<Rightarrow> chain" where
  "at_block_time t ch = ch\<lparr>latest_timestamp := t\<rparr>"

section \<open>The swap coordinator (the API server over the swaps table)\<close>

text \<open>
  A row of the table \<^verbatim>\<open>swaps\<close>, column by column. Nullable columns are options, the
  boolean columns are booleans (SQLite hands them back as 0 and 1), \<^verbatim>\<open>status\<close> is the text
  the table's check admits, and \<^verbatim>\<open>eth_amount\<close>, a column of type \<^verbatim>\<open>TEXT\<close>, is the text
  it holds. The primary key \<^verbatim>\<open>id\<close> is the key of the table.
\<close>

record swap =
  direction :: string
  hashlock :: string
  secret :: "string option"
  btc_amount :: int
  eth_amount :: string
  btc_pubkey :: "string option"
  eth_address :: string
  expiration :: int
  btc_funded :: bool
  eth_funded :: bool
  eth_escrow_address :: "string option"
  btc_redeem_script :: "string option"
  btc_txid :: "string option"
  secret_revealed :: bool
  secret_revealed_at :: "int option"
  status :: string
  created_at :: int
  updated_at :: int

record database =
  rows :: "nat \<rightharpoonup> swap"
  last_id :: nat

datatype http_error = BadRequest string | NotFound string | InternalServerError

text \<open>\<^verbatim>\<open>UPDATE swaps SET ... WHERE id = ?\<close>: the new table and the number of rows changed.\<close>

definition update_swap :: "database \<Rightarrow> nat \<Rightarrow> (swap \<Rightarrow> swap) \<Rightarrow> database \<times> nat" where
  "update_swap db i f =
     (case rows db i of
        None \<Rightarrow> (db, 0)
      | Some s \<Rightarrow> (db\<lparr>rows := (rows db)(i \<mapsto> f s)\<rparr>, 1))"

text \<open>A request field that JavaScript's \<^verbatim>\<open>!\<close> takes for missing: absent or the empty text.\<close>

definition missing :: "string option \<Rightarrow> bool" where
  "missing v = (v = None \<or> v = Some [])"

text \<open>
  \<^verbatim>\<open>generateHashlock(secret)\<close>: the SHA-256 digest, as hex text, of the bytes the secret
  spells in hex; \<open>None\<close> when the hash object refuses the text and the call throws.
\<close>

definition generateHashlock :: "string \<Rightarrow> string option" where
  "generateHashlock s = map_option (\<lambda>bs. toHex (sha256 bs)) (hashUpdateHex s)"

text \<open>
  Every handler returns its answer (an error, or what the success body carries) and the
  table it leaves; \<open>now\<close> stands for the clock in seconds. An exception thrown inside a
  handler is caught by it and answered with status 500.
\<close>

text \<open>\<^verbatim>\<open>POST /swap/:id/fund-btc\<close>.\<close>

definition fund_btc ::
    "int \<Rightarrow> nat \<Rightarrow> string option \<Rightarrow> string option \<Rightarrow> database
      \<Rightarrow> (http_error + unit) \<times> database" where
  "fund_btc now i redeemScript btc_txid' db =
     (if missing redeemScript \<or> missing btc_txid'
      then (Inl (BadRequest ''Missing redeemScript or btc_txid''), db)
      else
        (case update_swap db i
                (\<lambda>s. s\<lparr>btc_funded := True, btc_redeem_script := redeemScript,
                        btc_txid := btc_txid', status := ''funded'', updated_at := now\<rparr>) of
           (db', changes) \<Rightarrow>
             if changes = 0 then (Inl (NotFound ''Swap not found''), db')
             else (Inr (), db')))"

text \<open>
  The server's state: the table and the chain its wallet talks to. \<open>wallet\<close> is the address of
  the server's one signer, which deploys, claims and refunds.
\<close>

record server =
  swaps_db :: database
  eth_chain :: chain

text \<open>
  What \<^verbatim>\<open>ethers\<close> reads a text as when it stands for an integer (\<^verbatim>\<open>getBigInt\<close>): the
  empty text is refused; a text that starts with one minus sign is the negation of the rest;
  anything else is what JavaScript's \<^verbatim>\<open>BigInt\<close> makes of it, which is, between optional
  white space, nothing at all (zero), decimal digits with an optional sign, or digits in
  base 16, 8 or 2 after \<^verbatim>\<open>0x\<close>, \<^verbatim>\<open>0o\<close> or \<^verbatim>\<open>0b\<close>.
\<close>

definition isSpace :: "char \<Rightarrow> bool" where
  "isSpace c = (of_char c \<in> {9, 10, 11, 12, 13, 32 :: nat})"

definition trim :: "string \<Rightarrow> string" where
  "trim s = rev (dropWhile isSpace (rev (dropWhile isSpace s)))"

definition digitsValue :: "int \<Rightarrow> string \<Rightarrow> int option" where
  "digitsValue base ds =
     (if ds \<noteq> [] \<and> list_all (\<lambda>c. case hexVal c of None \<Rightarrow> False | Some d \<Rightarrow> d < base) ds
      then Some (foldl (\<lambda>n c. n * base + the (hexVal c)) 0 ds)
      else None)"

definition toBigInt :: "string \<Rightarrow> int option" where
  "toBigInt s =
     (let t = trim s in
      if t = [] then Some 0
      else if take 2 t = ''0x'' \<or> take 2 t = ''0X'' then digitsValue 16 (drop 2 t)
      else if take 2 t = ''0o'' \<or> take 2 t = ''0O'' then digitsValue 8 (drop 2 t)
      else if take 2 t = ''0b'' \<or> take 2 t = ''0B'' then digitsValue 2 (drop 2 t)
      else if hd t = CHR ''+'' then digitsValue 10 (tl t)
      else if hd t = CHR ''-'' then map_option uminus (digitsValue 10 (tl t))
      else digitsValue 10 t)"

definition getBigInt :: "string \<Rightarrow> int option" where
  "getBigInt v =
     (if v = [] then None
      else if hd v = CHR ''-'' \<and> take 1 (tl v) \<noteq> ''-''
      then map_option uminus (toBigInt (tl v))
      else toBigInt v)"

text \<open>
  \<^verbatim>\<open>POST /swap/:id/fund-eth\<close>. \<^verbatim>\<open>formatEther(swap.eth_amount)\<close> reads the column as a
  number of wei and writes it in ether, and \<^verbatim>\<open>deployEscrow\<close> reads that back with
  \<^verbatim>\<open>parseEther\<close>: the value sent is the number of wei the column spells.
\<close>

definition fund_eth ::
    "int \<Rightarrow> address \<Rightarrow> address \<Rightarrow> nat \<Rightarrow> server \<Rightarrow> (http_error + address) \<times> server" where
  "fund_eth now wallet newAddress i sv =
     (case rows (swaps_db sv) i of
        None \<Rightarrow> (Inl (NotFound ''Swap not found''), sv)
      | Some s \<Rightarrow>
          (case getBigInt (eth_amount s) of
             None \<Rightarrow> (Inl InternalServerError, sv)
           | Some wei \<Rightarrow>
               (case EthEscrowManager_deployEscrow wallet (eth_chain sv) newAddress
                       (eth_address s) (''0x'' @ hashlock s) (expiration s) wei of
                  Inl _ \<Rightarrow> (Inl InternalServerError, sv)
                | Inr (ch', address') \<Rightarrow>
                    (Inr address',
                     sv\<lparr>eth_chain := ch',
                        swaps_db := fst (update_swap (swaps_db sv) i
                                     (\<lambda>s. s\<lparr>eth_funded := True,
                                             eth_escrow_address := Some address',
                                             status := ''funded'', updated_at := now\<rparr>))\<rparr>))))"

text \<open>
  \<^verbatim>\<open>POST /swap/:id/submit-secret\<close>. When \<^verbatim>\<open>generateHashlock\<close> throws on the secret
  given, the handler answers 500 and nothing is written.
\<close>

definition submit_secret ::
    "int \<Rightarrow> nat \<Rightarrow> string option \<Rightarrow> database \<Rightarrow> (http_error + string) \<times> database" where
  "submit_secret now i secret' db =
     (if missing secret' then (Inl (BadRequest ''Missing secret''), db)
      else
        (case rows db i of
           None \<Rightarrow> (Inl (NotFound ''Swap not found''), db)
         | Some s \<Rightarrow>
             (case generateHashlock (the secret') of
                None \<Rightarrow> (Inl InternalServerError, db)
              | Some hashlock' \<Rightarrow>
                  if hashlock' \<noteq> hashlock s
                  then (Inl (BadRequest ''Invalid secret''), db)
                  else (Inr (the secret'),
                        fst (update_swap db i
                               (\<lambda>s. s\<lparr>secret_revealed := True, secret_revealed_at := Some now,
                                       status := ''completed'', updated_at := now\<rparr>))))))"

text \<open>
  What \<^verbatim>\<open>res.json(swap)\<close> sends: the row as an object, a list of keys and values.
\<close>

datatype json = JNull | JNum int | JStr string

definition jtext :: "string option \<Rightarrow> json" where
  "jtext v = (case v of None \<Rightarrow> JNull | Some t \<Rightarrow> JStr t)"

definition jbool :: "bool \<Rightarrow> json" where
  "jbool b = JNum (if b then 1 else 0)"

definition swap_object :: "nat \<Rightarrow> swap \<Rightarrow> (string \<times> json) list" where
  "swap_object i s =
     [(''id'', JNum (int i)),
      (''direction'', JStr (direction s)),
      (''hashlock'', JStr (hashlock s)),
      (''secret'', jtext (secret s)),
      (''btc_amount'', JNum (btc_amount s)),
      (''eth_amount'', JStr (eth_amount s)),
      (''btc_pubkey'', jtext (btc_pubkey s)),
      (''eth_address'', JStr (eth_address s)),
      (''expiration'', JNum (expiration s)),
      (''btc_funded'', jbool (btc_funded s)),
      (''eth_funded'', jbool (eth_funded s)),
      (''eth_escrow_address'', jtext (eth_escrow_address s)),
      (''btc_redeem_script'', jtext (btc_redeem_script s)),
      (''btc_txid'', jtext (btc_txid s)),
      (''secret_revealed'', jbool (secret_revealed s)),
      (''secret_revealed_at'', (case secret_revealed_at s of None \<Rightarrow> JNull | Some t \<Rightarrow> JNum t)),
      (''status'', JStr (status s)),
      (''created_at'', JNum (created_at s)),
      (''updated_at'', JNum (updated_at s))]"

text \<open>\<^verbatim>\<open>delete swap.secret\<close>, and the rest pattern \<^verbatim>\<open>{ secret, ...sanitized }\<close>.\<close>

definition delete_key :: "string \<Rightarrow> (string \<times> json) list \<Rightarrow> (string \<times> json) list" where
  "delete_key k obj = filter (\<lambda>kv. fst kv \<noteq> k) obj"

text \<open>\<^verbatim>\<open>GET /swap/:id\<close>.\<close>

definition get_swap :: "nat \<Rightarrow> database \<Rightarrow> http_error + (string \<times> json) list" where
  "get_swap i db =
     (case rows db i of
        None \<Rightarrow> Inl (NotFound ''Swap not found'')
      | Some s \<Rightarrow>
          Inr (if \<not> secret_revealed s then delete_key ''secret'' (swap_object i s)
               else swap_object i s))"

text \<open>
  \<^verbatim>\<open>GET /swaps\<close>, with its two optional filters; the rows come newest first
  (\<^verbatim>\<open>ORDER BY created_at DESC\<close>), and rows created in the same second come with the
  higher id first, as the table's index on \<^verbatim>\<open>created_at\<close> read backwards gives them.
\<close>

definition select_swaps :: "string option \<Rightarrow> string option \<Rightarrow> database \<Rightarrow> (nat \<times> swap) list" where
  "select_swaps status' direction' db =
     rev (sort_key (\<lambda>r. created_at (snd r))
       (filter (\<lambda>r. (missing status' \<or> status (snd r) = the status')
                   \<and> (missing direction' \<or> direction (snd r) = the direction'))
          (concat (map (\<lambda>i. case rows db i of None \<Rightarrow> [] | Some s \<Rightarrow> [(i, s)])
                     [1..<Suc (last_id db)]))))"

definition get_swaps ::
    "string option \<Rightarrow> string option \<Rightarrow> database \<Rightarrow> (string \<times> json) list list" where
  "get_swaps status' direction' db =
     map (\<lambda>r. if \<not> secret_revealed (snd r) then delete_key ''secret'' (swap_object (fst r) (snd r))
               else swap_object (fst r) (snd r))
       (select_swaps status' direction' db)"

text \<open>\<^verbatim>\<open>POST /swap/:id/claim-eth\<close>.\<close>

definition claim_eth ::
    "int \<Rightarrow> address \<Rightarrow> nat \<Rightarrow> string option \<Rightarrow> server \<Rightarrow> (http_error + unit) \<times> server" where
  "claim_eth now wallet i secret' sv =
     (case rows (swaps_db sv) i of
        None \<Rightarrow> (Inl (NotFound ''Swap not found''), sv)
      | Some s \<Rightarrow>
          if missing (eth_escrow_address s)
          then (Inl (BadRequest ''ETH escrow not deployed''), sv)
          else
            (case secret' of
               None \<Rightarrow> (Inl InternalServerError, sv)
             | Some t \<Rightarrow>
                 (case EthEscrowManager_claim wallet (eth_chain sv) (the (eth_escrow_address s)) t of
                    Inl _ \<Rightarrow> (Inl InternalServerError, sv)
                  | Inr (ch', _) \<Rightarrow>
                      (Inr (),
                       sv\<lparr>eth_chain := ch',
                          swaps_db := fst (update_swap (swaps_db sv) i
                                       (\<lambda>s. s\<lparr>secret_revealed := True,
                                               secret_revealed_at := Some now,
                                               status := ''completed'', updated_at := now\<rparr>))\<rparr>))))"

text \<open>\<^verbatim>\<open>POST /swap/:id/refund-eth\<close>.\<close>

definition refund_eth ::
    "int \<Rightarrow> address \<Rightarrow> nat \<Rightarrow> server \<Rightarrow> (http_error + unit) \<times> server" where
  "refund_eth now wallet i sv =
     (case rows (swaps_db sv) i of
        None \<Rightarrow> (Inl (NotFound ''Swap not found''), sv)
      | Some s \<Rightarrow>
          if missing (eth_escrow_address s)
          then (Inl (BadRequest ''ETH escrow not deployed''), sv)
          else if now < expiration s then (Inl (BadRequest ''Timeout not yet reached''), sv)
          else
            (case EthEscrowManager_refund wallet (eth_chain sv) (the (eth_escrow_address s)) of
               Inl _ \<Rightarrow> (Inl InternalServerError, sv)
             | Inr (ch', _) \<Rightarrow>
                 (Inr (),
                  sv\<lparr>eth_chain := ch',
                     swaps_db := fst (update_swap (swaps_db sv) i
                                  (\<lambda>s. s\<lparr>status := ''refunded'', updated_at := now\<rparr>))\<rparr>)))"

section \<open>The UTXO-chain HTLC builder\<close>

text \<open>
  Transactions as the builders shape them: the inputs (the outpoint spent, the sequence
  number, the witness stack), the outputs (destination and amount in satoshis) and the
  time-lock field. An output is named by the address it pays; the library turns the address
  into a script when the output is added.
\<close>

record txin =
  hash :: string
  index :: nat
  sequence :: nat
  witness :: "bytes list"

record txout =
  to_address :: string
  out_value :: int

record transaction =
  locktime :: nat
  ins :: "txin list"
  outs :: "txout list"

text \<open>
  The spendable outputs the builders are given; a funding input also carries the script it
  is locked under (the field \<^verbatim>\<open>scriptPubKey\<close> of the source).
\<close>

record htlcUtxo =
  txid :: string
  vout :: nat
  utxo_value :: int

record utxo = htlcUtxo +
  utxo_script :: bytes

record HTLCScript =
  redeemScript :: bytes
  address :: string
  scriptPubKey :: bytes

text \<open>
  A signing key: its public key and the signature it gives for an input of a transaction.
  Signatures are opaque bytes.
\<close>

record keyPair =
  publicKey :: bytes
  sign_input :: "transaction \<Rightarrow> nat \<Rightarrow> bytes"

subsection \<open>The Bitcoin library the builders call\<close>

text \<open>
  Three answers of the library rest on encodings and on elliptic-curve and hash functions
  that are not part of this development; the builders take them as a record of functions.

  \<^item> \<open>toOutputScript a\<close>: the script the address \<open>a\<close> pays to on the test network, none for a
    text that is no such address.
  \<^item> \<open>canSign pk script ws\<close>: whether the library signs, with the key whose public key is
    \<open>pk\<close>, an input that spends an output locked under \<open>script\<close> and was added with the
    witness script \<open>ws\<close>. It does when it finds the key in the script that is to be
    satisfied: the witness script, which must hash to \<open>script\<close>, for an output that pays to
    a script hash; the output's own script for one that pays to a key hash.
  \<^item> \<open>getFinalScripts script sigs\<close>: the witness stack the library's own finalizer makes for
    an input locked under \<open>script\<close> from its signatures, none for a script it cannot
    finalize.
\<close>

record library =
  toOutputScript :: "string \<Rightarrow> bytes option"
  canSign :: "bytes \<Rightarrow> bytes \<Rightarrow> bytes option \<Rightarrow> bool"
  getFinalScripts :: "bytes \<Rightarrow> (bytes \<times> bytes) list \<Rightarrow> bytes list option"

subsection \<open>The partially signed transaction the builders fill in\<close>

text \<open>
  The calls into the PSBT class of the library, by their effect on the transaction under
  construction, each with the refusals (exceptions) it has. Beside the transaction a PSBT
  keeps, for each input, the output it spends (script and amount), the witness script it
  was added with and the signatures collected, each with the public key it is for.
\<close>

record psbt_input =
  witnessUtxo_script :: bytes
  witnessUtxo_value :: int
  witnessScript :: "bytes option"
  partialSig :: "(bytes \<times> bytes) list"

record psbt =
  psbt_tx :: transaction
  inputs :: "psbt_input list"

datatype build_error =
  ErrorAddingInput
  | InvalidWitnessScript
  | DuplicateInput
  | NoMatchingScript
  | InvalidOutputValue
  | InvalidLocktime
  | NoInput
  | InvalidInputValue
  | CannotSign
  | DuplicateSignature
  | NoSignature
  | CannotFinalize
  | FinalScriptWitnessNotBuffer
  | OutputsExceedInputs

definition new_psbt :: psbt where
  "new_psbt = \<lparr>psbt_tx = \<lparr>locktime = 0, ins = [], outs = []\<rparr>, inputs = []\<rparr>"

definition isSatoshi :: "int \<Rightarrow> bool" where
  "isSatoshi v = (0 \<le> v \<and> v \<le> 2100000000000000)"

definition setLocktime :: "int \<Rightarrow> psbt \<Rightarrow> build_error + psbt" where
  "setLocktime t p =
     (if 0 \<le> t \<and> t < 4294967296
      then Inr (p\<lparr>psbt_tx := (psbt_tx p)\<lparr>locktime := nat t\<rparr>\<rparr>)
      else Inl InvalidLocktime)"

text \<open>The two script shapes a witness script must not have: pay to key hash, pay to script hash.\<close>

definition isP2WPKH :: "bytes \<Rightarrow> bool" where
  "isP2WPKH s = (length s = 22 \<and> take 2 s = [0x00, 0x14])"

definition isP2SH :: "bytes \<Rightarrow> bool" where
  "isP2SH s = (length s = 23 \<and> take 2 s = [0xa9, 0x14] \<and> drop 22 s = [0x87])"

text \<open>
  \<^verbatim>\<open>addInput({hash, index, witnessUtxo: {script, value}, witnessScript, sequence})\<close>. The
  transaction id must spell 32 bytes in hex and the index be a 32-bit number; an outpoint
  is added once only.
\<close>

definition addInput ::
    "string \<Rightarrow> nat \<Rightarrow> bytes \<Rightarrow> int \<Rightarrow> bytes option \<Rightarrow> nat \<Rightarrow> psbt \<Rightarrow> build_error + psbt" where
  "addInput h i script v ws sq p =
     (if length (fromHex h) = 32 \<and> i < 4294967296
      then
        (if (case ws of None \<Rightarrow> False | Some w \<Rightarrow> isP2WPKH w \<or> isP2SH w)
         then Inl InvalidWitnessScript
         else if (fromHex h, i) \<in> set (map (\<lambda>x. (fromHex (hash x), index x)) (ins (psbt_tx p)))
         then Inl DuplicateInput
         else Inr (p\<lparr>psbt_tx := (psbt_tx p)\<lparr>ins := ins (psbt_tx p) @
                                     [\<lparr>hash = h, index = i, sequence = sq, witness = []\<rparr>]\<rparr>,
                     inputs := inputs p @
                       [\<lparr>witnessUtxo_script = script, witnessUtxo_value = v,
                         witnessScript = ws, partialSig = []\<rparr>]\<rparr>))
      else Inl ErrorAddingInput)"

text \<open>\<^verbatim>\<open>addOutput({address, value})\<close>: the address is decoded first, then the amount is checked.\<close>

definition addOutput :: "library \<Rightarrow> string \<Rightarrow> int \<Rightarrow> psbt \<Rightarrow> build_error + psbt" where
  "addOutput lib a v p =
     (case toOutputScript lib a of
        None \<Rightarrow> Inl NoMatchingScript
      | Some _ \<Rightarrow>
          if isSatoshi v
          then Inr (p\<lparr>psbt_tx := (psbt_tx p)\<lparr>outs := outs (psbt_tx p) @
                                                [\<lparr>to_address = a, out_value = v\<rparr>]\<rparr>\<rparr>)
          else Inl InvalidOutputValue)"

text \<open>
  \<^verbatim>\<open>signInput(i, keyPair)\<close>: the input must exist, the amount it spends must be a satoshi
  amount (it goes into the hash that is signed), the key must be one the library signs this
  input with, and a key signs an input once.
\<close>

definition signInput :: "library \<Rightarrow> nat \<Rightarrow> keyPair \<Rightarrow> psbt \<Rightarrow> build_error + psbt" where
  "signInput lib i k p =
     (if i < length (inputs p)
      then
        (let input = inputs p ! i in
         if isSatoshi (witnessUtxo_value input)
         then
           (if canSign lib (publicKey k) (witnessUtxo_script input) (witnessScript input)
            then
              (if publicKey k \<in> set (map fst (partialSig input))
               then Inl DuplicateSignature
               else Inr (p\<lparr>inputs := (inputs p)
                           [i := input\<lparr>partialSig := partialSig input @
                                         [(publicKey k, sign_input k (psbt_tx p) i)]\<rparr>]\<rparr>))
            else Inl CannotSign)
         else Inl InvalidInputValue)
      else Inl NoInput)"

text \<open>
  What a finalizer hands back as \<^verbatim>\<open>finalScriptWitness\<close>. The library takes a
  \<^verbatim>\<open>Buffer\<close>, the serialized witness: \<open>WitnessBuffer stack\<close> is the buffer that
  serializes \<open>stack\<close>. Anything else, such as the array of stack items itself
  (\<open>WitnessArray\<close>), it refuses.
\<close>

datatype finalScriptWitness = WitnessBuffer "bytes list" | WitnessArray "bytes list"

text \<open>
  \<^verbatim>\<open>finalizeInput(i, finalScriptsFunc)\<close>: the finalizer is run on the input, and the witness
  it gives becomes the witness of the transaction's input.
\<close>

definition finalizeInput ::
    "nat \<Rightarrow> (psbt_input \<Rightarrow> build_error + finalScriptWitness) \<Rightarrow> psbt \<Rightarrow> build_error + psbt" where
  "finalizeInput i finalScriptsFunc p =
     (if i < length (inputs p)
      then
        (case finalScriptsFunc (inputs p ! i) of
           Inl e \<Rightarrow> Inl e
         | Inr (WitnessArray stack) \<Rightarrow> Inl FinalScriptWitnessNotBuffer
         | Inr (WitnessBuffer stack) \<Rightarrow>
             Inr (p\<lparr>psbt_tx := (psbt_tx p)\<lparr>ins := (ins (psbt_tx p))
                      [i := (ins (psbt_tx p) ! i)\<lparr>witness := stack\<rparr>]\<rparr>\<rparr>))
      else Inl NoInput)"

text \<open>The library's own finalizer, used when \<^verbatim>\<open>finalizeInput\<close> is given none.\<close>

definition defaultFinalizer :: "library \<Rightarrow> psbt_input \<Rightarrow> build_error + finalScriptWitness" where
  "defaultFinalizer lib input =
     (case getFinalScripts lib (witnessUtxo_script input) (partialSig input) of
        None \<Rightarrow> Inl CannotFinalize
      | Some stack \<Rightarrow> Inr (WitnessBuffer stack))"

fun finalizeInputs :: "library \<Rightarrow> nat list \<Rightarrow> psbt \<Rightarrow> build_error + psbt" where
  "finalizeInputs lib [] p = Inr p"
| "finalizeInputs lib (i # rest) p =
     (case finalizeInput i (defaultFinalizer lib) p of
        Inl e \<Rightarrow> Inl e
      | Inr p' \<Rightarrow> finalizeInputs lib rest p')"

text \<open>\<^verbatim>\<open>finalizeAllInputs()\<close>: refused on a PSBT with no input, else input by input.\<close>

definition finalizeAllInputs :: "library \<Rightarrow> psbt \<Rightarrow> build_error + psbt" where
  "finalizeAllInputs lib p =
     (if inputs p = [] then Inl NoInput
      else finalizeInputs lib [0..<length (inputs p)] p)"

text \<open>
  \<^verbatim>\<open>extractTransaction()\<close>, called on a PSBT whose inputs are all finalized: refused when the
  outputs spend more than the inputs hold. Its second guard, against a fee of 5000 satoshis
  or more a virtual byte, is out of reach of these builders, which leave a fee of 1546
  satoshis at most.
\<close>

definition extractTransaction :: "psbt \<Rightarrow> build_error + transaction" where
  "extractTransaction p =
     (if sum_list (map witnessUtxo_value (inputs p))
           - sum_list (map out_value (outs (psbt_tx p))) < 0
      then Inl OutputsExceedInputs
      else Inr (psbt_tx p))"

subsection \<open>buildFundingTx\<close>

text \<open>The first loop: every UTXO becomes an input and its value is added to the total.\<close>

fun addInputs :: "utxo list \<Rightarrow> psbt \<Rightarrow> int \<Rightarrow> build_error + psbt \<times> int" where
  "addInputs [] p totalInput = Inr (p, totalInput)"
| "addInputs (u # us) p totalInput =
     (case addInput (txid u) (vout u) (utxo_script u) (utxo_value u) None 4294967295 p of
        Inl e \<Rightarrow> Inl e
      | Inr p' \<Rightarrow> addInputs us p' (totalInput + utxo_value u))"

text \<open>The second loop: \<^verbatim>\<open>for (let i = 0; i < utxos.length; i++) psbt.signInput(i, keyPair)\<close>.\<close>

fun signInputs :: "library \<Rightarrow> nat list \<Rightarrow> keyPair \<Rightarrow> psbt \<Rightarrow> build_error + psbt" where
  "signInputs lib [] k p = Inr p"
| "signInputs lib (i # rest) k p =
     (case signInput lib i k p of
        Inl e \<Rightarrow> Inl e
      | Inr p' \<Rightarrow> signInputs lib rest k p')"

definition buildFundingTx ::
    "library \<Rightarrow> utxo list \<Rightarrow> string \<Rightarrow> int \<Rightarrow> string \<Rightarrow> keyPair \<Rightarrow> build_error + transaction" where
  "buildFundingTx lib utxos htlcAddress amount' changeAddress k =
     (case addInputs utxos new_psbt 0 of
        Inl e \<Rightarrow> Inl e
      | Inr (p1, totalInput) \<Rightarrow>
          (case addOutput lib htlcAddress amount' p1 of
             Inl e \<Rightarrow> Inl e
           | Inr p2 \<Rightarrow>
               (let fee = 1000;
                    change = totalInput - amount' - fee
                in case (if change > 546 then addOutput lib changeAddress change p2 else Inr p2) of
                     Inl e \<Rightarrow> Inl e
                   | Inr p3 \<Rightarrow>
                       (case signInputs lib [0..<length utxos] k p3 of
                          Inl e \<Rightarrow> Inl e
                        | Inr p4 \<Rightarrow>
                            (case finalizeAllInputs lib p4 of
                               Inl e \<Rightarrow> Inl e
                             | Inr p5 \<Rightarrow> extractTransaction p5)))))"

subsection \<open>buildRedeemTx and buildRefundTx\<close>

text \<open>
  \<^verbatim>\<open>bitcoin.script.toStack(chunks)\<close> on chunks that are all buffers: the array of the same
  buffers.
\<close>

definition toStack :: "bytes list \<Rightarrow> bytes list" where
  "toStack stack = stack"

text \<open>
  The finalizers the two builders pass to \<^verbatim>\<open>finalizeInput\<close>: each reads the first
  signature of the input and returns, as \<^verbatim>\<open>finalScriptWitness\<close>, the array
  \<^verbatim>\<open>toStack\<close> gives.
\<close>

definition redeemFinalizer ::
    "bytes \<Rightarrow> HTLCScript \<Rightarrow> psbt_input \<Rightarrow> build_error + finalScriptWitness" where
  "redeemFinalizer s htlcScript input =
     (case partialSig input of
        [] \<Rightarrow> Inl NoSignature
      | sg # _ \<Rightarrow>
          (let signature = snd sg
           in Inr (WitnessArray (toStack [signature, s, [0x01], redeemScript htlcScript]))))"

definition refundFinalizer ::
    "HTLCScript \<Rightarrow> psbt_input \<Rightarrow> build_error + finalScriptWitness" where
  "refundFinalizer htlcScript input =
     (case partialSig input of
        [] \<Rightarrow> Inl NoSignature
      | sg # _ \<Rightarrow>
          (let signature = snd sg
           in Inr (WitnessArray (toStack [signature, [0x00], redeemScript htlcScript]))))"

definition buildRedeemTx ::
    "library \<Rightarrow> htlcUtxo \<Rightarrow> HTLCScript \<Rightarrow> string \<Rightarrow> bytes \<Rightarrow> keyPair
      \<Rightarrow> build_error + transaction" where
  "buildRedeemTx lib u htlcScript recipientAddress s k =
     (case addInput (txid u) (vout u) (scriptPubKey htlcScript) (utxo_value u)
             (Some (redeemScript htlcScript)) 4294967295 new_psbt of
        Inl e \<Rightarrow> Inl e
      | Inr p1 \<Rightarrow>
          (let fee = 1000
           in case addOutput lib recipientAddress (utxo_value u - fee) p1 of
                Inl e \<Rightarrow> Inl e
              | Inr p2 \<Rightarrow>
                  (case signInput lib 0 k p2 of
                     Inl e \<Rightarrow> Inl e
                   | Inr p3 \<Rightarrow>
                       (case finalizeInput 0 (redeemFinalizer s htlcScript) p3 of
                          Inl e \<Rightarrow> Inl e
                        | Inr p4 \<Rightarrow> extractTransaction p4))))"

definition buildRefundTx ::
    "library \<Rightarrow> htlcUtxo \<Rightarrow> HTLCScript \<Rightarrow> string \<Rightarrow> keyPair \<Rightarrow> int
      \<Rightarrow> build_error + transaction" where
  "buildRefundTx lib u htlcScript refundAddress k locktime' =
     (case setLocktime locktime' new_psbt of
        Inl e \<Rightarrow> Inl e
      | Inr p0 \<Rightarrow>
          (case addInput (txid u) (vout u) (scriptPubKey htlcScript) (utxo_value u)
                  (Some (redeemScript htlcScript)) 4294967294 p0 of
             Inl e \<Rightarrow> Inl e
           | Inr p1 \<Rightarrow>
               (let fee = 1000
                in case addOutput lib refundAddress (utxo_value u - fee) p1 of
                     Inl e \<Rightarrow> Inl e
                   | Inr p2 \<Rightarrow>
                       (case signInput lib 0 k p2 of
                          Inl e \<Rightarrow> Inl e
                        | Inr p3 \<Rightarrow>
                            (case finalizeInput 0 (refundFinalizer htlcScript) p3 of
                               Inl e \<Rightarrow> Inl e
                             | Inr p4 \<Rightarrow> extractTransaction p4)))))"

subsection \<open>extractSecretFromTx\<close>

fun extractSecretFromIns :: "txin list \<Rightarrow> bytes option" where
  "extractSecretFromIns [] = None"
| "extractSecretFromIns (input # rest) =
     (if length (witness input) \<ge> 4
      then (let s = witness input ! 1
            in if length s = 32 then Some s else extractSecretFromIns rest)
      else extractSecretFromIns rest)"

definition extractSecretFromTx :: "transaction \<Rightarrow> bytes option" where
  "extractSecretFromTx t = extractSecretFromIns (ins t)"

section \<open>A sample swap\<close>

text \<open>
  The data the instances below are run on. The table holds one row, as
  \<^verbatim>\<open>POST /swap/create\<close> inserts it at clock 1700000000 for one ether against 100000
  satoshis with an expiration of one hour: the values the request binds, the secret (here
  32 bytes 42 in hex) with its hashlock, and the defaults of the other columns. Its id is 1.
  Then the secret, the server's wallet, and a chain with no contract yet on which every
  account takes payments.
\<close>

definition sample_row :: swap where
  "sample_row =
     \<lparr>direction = ''btc-to-eth'',
      hashlock = ''544e62cee8033709e389e5b2755343d0d0fa8c4850215cfb6331717e80d1aea3'',
      secret = Some ''2a2a2a2a2a2a2a2a2a2a2a2a2a2a2a2a2a2a2a2a2a2a2a2a2a2a2a2a2a2a2a2a'',
      btc_amount = 100000, eth_amount = ''1000000000000000000'', btc_pubkey = None,
      eth_address = ''0x00000000000000000000000000000000000000e2'',
      expiration = 1700003600, btc_funded = False, eth_funded = False,
      eth_escrow_address = None, btc_redeem_script = None, btc_txid = None,
      secret_revealed = False, secret_revealed_at = None, status = ''pending'',
      created_at = 1700000000, updated_at = 1700000000\<rparr>"

definition sample_db :: database where
  "sample_db = \<lparr>rows = [1 \<mapsto> sample_row], last_id = 1\<rparr>"

definition sample_secret :: string where
  "sample_secret = ''2a2a2a2a2a2a2a2a2a2a2a2a2a2a2a2a2a2a2a2a2a2a2a2a2a2a2a2a2a2a2a2a''"

definition sample_wallet :: address where
  "sample_wallet = ''0x00000000000000000000000000000000000000d1''"

definition sample_chain :: chain where
  "sample_chain =
     \<lparr>contracts = Map.empty, latest_timestamp = 1700000000, refusing = (\<lambda>a. None)\<rparr>"

definition sample_server :: server where
  "sample_server = \<lparr>swaps_db = sample_db, eth_chain = sample_chain\<rparr>"

definition sample_escrow_address :: address where
  "sample_escrow_address = ''0x00000000000000000000000000000000000000c3''"

text \<open>The escrow and the server's state after \<^verbatim>\<open>fund-eth\<close> on the sample swap.\<close>

definition sample_escrow :: EthEscrow where
  "sample_escrow =
     \<lparr>deployer = sample_wallet, recipient = ''0x00000000000000000000000000000000000000e2'',
      hashlock = sha256 (replicate 32 42), timeout = 1700003600,
      amount = 1000000000000000000, claimed = False, refunded = False\<rparr>"

definition sample_funded :: server where
  "sample_funded =
     \<lparr>swaps_db = sample_db\<lparr>rows := (rows sample_db)(1 \<mapsto>
         sample_row\<lparr>eth_funded := True, eth_escrow_address := Some sample_escrow_address,
           status := ''funded'', updated_at := 1700000010\<rparr>)\<rparr>,
      eth_chain = sample_chain\<lparr>contracts := [sample_escrow_address \<mapsto> sample_escrow]\<rparr>\<rparr>"

section \<open>A sample lock on the UTXO chain\<close>

text \<open>
  Two keys (the public keys of the secret keys 1 and 2), the script
  \<^verbatim>\<open>createHTLCScript\<close> compiles for the sample swap's hashlock with the first key as
  recipient, the second as refunder and the time-lock 1700003600, the output script that
  pays to the hash of that script, and its address on the test network. Signatures stand
  as 71 bytes.
\<close>

definition sample_pubkey :: bytes where
  "sample_pubkey =
     fromHex ''0279be667ef9dcbbac55a06295ce870b07029bfcdb2dce28d959f2815b16f81798''"

definition sample_refund_pubkey :: bytes where
  "sample_refund_pubkey =
     fromHex ''02c6047f9441ed7d6d3045406e95c07cd85c778e4b8cef3ca7abac09b95c709ee5''"

definition sample_key :: keyPair where
  "sample_key = \<lparr>publicKey = sample_pubkey, sign_input = (\<lambda>t i. replicate 71 0x30)\<rparr>"

definition sample_refund_key :: keyPair where
  "sample_refund_key =
     \<lparr>publicKey = sample_refund_pubkey, sign_input = (\<lambda>t i. replicate 71 0x31)\<rparr>"

definition sample_htlcScript :: HTLCScript where
  "sample_htlcScript =
     \<lparr>redeemScript =
        [0x63, 0xa8, 0x20] @ sha256 (replicate 32 42) @ [0x88, 0x21] @ sample_pubkey
        @ [0xac, 0x67, 0x04, 0x10, 0xff, 0x53, 0x65, 0xb1, 0x75, 0x21] @ sample_refund_pubkey
        @ [0xac, 0x68],
      address = ''tb1qrs6an5n2f5000tvydusg3gfltp838mh8gxfp4fhv8xg2grn07cuqthv9f7'',
      scriptPubKey =
        fromHex ''00201c35d9d26a4d1ef7ad846f2088a13f584f13eee741921aa6ec3990a40e6ff638''\<rparr>"

definition sample_lock_txid :: string where
  "sample_lock_txid = ''00000000000000000000000000000000000000000000000000000000000000f1''"

definition sample_htlcUtxo :: htlcUtxo where
  "sample_htlcUtxo = \<lparr>txid = sample_lock_txid, vout = 0, utxo_value = 50000\<rparr>"

text \<open>
  The first key's own address on the test network with its script, and an output of 5000
  and one of 1500 satoshis paid to it.
\<close>

definition sample_address :: string where
  "sample_address = ''tb1qw508d6qejxtdg4y5r3zarvary0c5xw7kxpjzsx''"

definition sample_address_script :: bytes where
  "sample_address_script = fromHex ''0014751e76e8199196d454941c45d1b3a323f1433bd6''"

definition sample_txid :: string where
  "sample_txid = ''00000000000000000000000000000000000000000000000000000000000000f0''"

definition sample_utxo :: "int \<Rightarrow> utxo" where
  "sample_utxo v =
     \<lparr>txid = sample_txid, vout = 0, utxo_value = v, utxo_script = sample_address_script\<rparr>"

text \<open>
  The library's three answers as far as the samples go: the two addresses above decode to
  their scripts, the two keys sign for the lock (each is in its script) and the first key
  for its own address, and an output paid to the first key is finalized with the signature
  and the key.
\<close>

definition sample_library :: library where
  "sample_library =
     \<lparr>toOutputScript =
        (\<lambda>a. if a = sample_address then Some sample_address_script
              else if a = address sample_htlcScript then Some (scriptPubKey sample_htlcScript)
              else None),
      canSign =
        (\<lambda>pk script ws.
           (pk = sample_pubkey \<and> script = sample_address_script \<and> ws = None)
           \<or> ((pk = sample_pubkey \<or> pk = sample_refund_pubkey)
               \<and> script = scriptPubKey sample_htlcScript
               \<and> ws = Some (redeemScript sample_htlcScript))),
      getFinalScripts =
        (\<lambda>script sigs.
           if script = sample_address_script
           then (case sigs of [sg] \<Rightarrow> Some [snd sg, fst sg] | _ \<Rightarrow> None)
           else None)\<rparr>"

section \<open>Facts about the transaction builders\<close>

text \<open>What each call of the PSBT class leaves of the outputs and of the amounts spent.\<close>

lemma addInput_Inr:
  "addInput h i sc v ws sq p = Inr p' \<Longrightarrow>
     outs (psbt_tx p') = outs (psbt_tx p)
     \<and> map witnessUtxo_value (inputs p') = map witnessUtxo_value (inputs p) @ [v]"
  by (auto simp: addInput_def split: if_splits)

lemma addInputs_Inr:
  "addInputs us p tot = Inr (p', tot') \<Longrightarrow>
     tot' = tot + sum_list (map utxo_value us)
     \<and> outs (psbt_tx p') = outs (psbt_tx p)
     \<and> map witnessUtxo_value (inputs p') = map witnessUtxo_value (inputs p) @ map utxo_value us"
proof (induction us arbitrary: p tot)
  case Nil
  then show ?case by simp
next
  case (Cons u us)
  from Cons.prems obtain q where
    q: "addInput (txid u) (vout u) (utxo_script u) (utxo_value u) None 4294967295 p = Inr q"
    and rest: "addInputs us q (tot + utxo_value u) = Inr (p', tot')"
    by (auto split: sum.splits)
  from Cons.IH [OF rest] addInput_Inr [OF q] show ?case
    by simp
qed

lemma addOutput_Inr:
  "addOutput lib a v p = Inr p' \<Longrightarrow>
     outs (psbt_tx p') = outs (psbt_tx p) @ [\<lparr>to_address = a, out_value = v\<rparr>]
     \<and> inputs p' = inputs p"
  by (auto simp: addOutput_def split: option.splits if_splits)

lemma signInput_Inr:
  "signInput lib i k p = Inr p' \<Longrightarrow>
     psbt_tx p' = psbt_tx p
     \<and> map witnessUtxo_value (inputs p') = map witnessUtxo_value (inputs p)"
  by (auto simp: signInput_def Let_def map_update list_update_same_conv split: if_splits)

lemma signInputs_Inr:
  "signInputs lib js k p = Inr p' \<Longrightarrow>
     psbt_tx p' = psbt_tx p
     \<and> map witnessUtxo_value (inputs p') = map witnessUtxo_value (inputs p)"
proof (induction js arbitrary: p)
  case Nil
  then show ?case by simp
next
  case (Cons j js)
  from Cons.prems obtain q where
    q: "signInput lib j k p = Inr q" and rest: "signInputs lib js k q = Inr p'"
    by (auto split: sum.splits)
  from Cons.IH [OF rest] signInput_Inr [OF q] show ?case
    by simp
qed

lemma finalizeInput_Inr:
  "finalizeInput i f p = Inr p' \<Longrightarrow>
     outs (psbt_tx p') = outs (psbt_tx p) \<and> inputs p' = inputs p"
  by (auto simp: finalizeInput_def split: if_splits sum.splits finalScriptWitness.splits)

lemma finalizeInputs_Inr:
  "finalizeInputs lib js p = Inr p' \<Longrightarrow>
     outs (psbt_tx p') = outs (psbt_tx p) \<and> inputs p' = inputs p"
proof (induction js arbitrary: p)
  case Nil
  then show ?case by simp
next
  case (Cons j js)
  from Cons.prems obtain q where
    q: "finalizeInput j (defaultFinalizer lib) p = Inr q"
    and rest: "finalizeInputs lib js q = Inr p'"
    by (auto split: sum.splits)
  from Cons.IH [OF rest] finalizeInput_Inr [OF q] show ?case
    by simp
qed

lemma finalizeAllInputs_Inr:
  "finalizeAllInputs lib p = Inr p' \<Longrightarrow>
     outs (psbt_tx p') = outs (psbt_tx p) \<and> inputs p' = inputs p \<and> inputs p \<noteq> []"
  using finalizeInputs_Inr [of lib "[0..<length (inputs p)]" p p']
  by (auto simp: finalizeAllInputs_def split: if_splits)

lemma extractTransaction_Inr:
  "extractTransaction p = Inr t \<Longrightarrow>
     t = psbt_tx p
     \<and> sum_list (map out_value (outs (psbt_tx p)))
         \<le> sum_list (map witnessUtxo_value (inputs p))"
  by (auto simp: extractTransaction_def split: if_splits)

text \<open>
  What \<^verbatim>\<open>buildFundingTx\<close> returns, stage by stage: the outputs are the ones added, the
  amounts spent are the values of the UTXOs, there is an input, and the outputs do not
  exceed the inputs.
\<close>

lemma buildFundingTx_Inr:
  assumes "buildFundingTx lib utxos a amt c k = Inr t"
  shows "outs t = \<lparr>to_address = a, out_value = amt\<rparr> #
                  (if sum_list (map utxo_value utxos) - amt - 1000 > 546
                   then [\<lparr>to_address = c,
                          out_value = sum_list (map utxo_value utxos) - amt - 1000\<rparr>]
                   else [])"
    and "sum_list (map out_value (outs t)) \<le> sum_list (map utxo_value utxos)"
    and "utxos \<noteq> []"
proof -
  let ?total = "sum_list (map utxo_value utxos)"
  let ?change = "?total - amt - 1000"
  from assms obtain p1 tot where p1: "addInputs utxos new_psbt 0 = Inr (p1, tot)"
    by (auto simp: buildFundingTx_def split: sum.splits)
  have tot: "tot = ?total" and outs1: "outs (psbt_tx p1) = []"
    and vals1: "map witnessUtxo_value (inputs p1) = map utxo_value utxos"
    using addInputs_Inr [OF p1] by (simp_all add: new_psbt_def)
  from assms p1 obtain p2 where p2: "addOutput lib a amt p1 = Inr p2"
    by (auto simp: buildFundingTx_def split: sum.splits)
  from assms p1 p2 tot obtain p3 where
    p3: "(if ?change > 546 then addOutput lib c ?change p2 else Inr p2) = Inr p3"
    by (auto simp: buildFundingTx_def Let_def split: sum.splits)
  from assms p1 p2 p3 tot obtain p4 where p4: "signInputs lib [0..<length utxos] k p3 = Inr p4"
    by (auto simp: buildFundingTx_def Let_def split: sum.splits)
  from assms p1 p2 p3 p4 tot obtain p5 where p5: "finalizeAllInputs lib p4 = Inr p5"
    by (auto simp: buildFundingTx_def Let_def split: sum.splits)
  from assms p1 p2 p3 p4 p5 tot have t: "extractTransaction p5 = Inr t"
    by (auto simp: buildFundingTx_def Let_def split: sum.splits)
  have outs2: "outs (psbt_tx p2) = [\<lparr>to_address = a, out_value = amt\<rparr>]"
    and in2: "inputs p2 = inputs p1"
    using addOutput_Inr [OF p2] outs1 by simp_all
  have outs3: "outs (psbt_tx p3) = \<lparr>to_address = a, out_value = amt\<rparr> #
        (if ?change > 546 then [\<lparr>to_address = c, out_value = ?change\<rparr>] else [])"
    and in3: "inputs p3 = inputs p1"
  proof -
    show "outs (psbt_tx p3) = \<lparr>to_address = a, out_value = amt\<rparr> #
        (if ?change > 546 then [\<lparr>to_address = c, out_value = ?change\<rparr>] else [])"
    proof (cases "?change > 546")
      case True
      with p3 have "addOutput lib c ?change p2 = Inr p3" by simp
      from addOutput_Inr [OF this] outs2 True show ?thesis by simp
    next
      case False
      with p3 outs2 show ?thesis by simp
    qed
    show "inputs p3 = inputs p1"
    proof (cases "?change > 546")
      case True
      with p3 have "addOutput lib c ?change p2 = Inr p3" by simp
      from addOutput_Inr [OF this] in2 show ?thesis by simp
    next
      case False
      with p3 in2 show ?thesis by simp
    qed
  qed
  have tx4: "psbt_tx p4 = psbt_tx p3"
    and vals4: "map witnessUtxo_value (inputs p4) = map utxo_value utxos"
    using signInputs_Inr [OF p4] in3 vals1 by simp_all
  have outs5: "outs (psbt_tx p5) = outs (psbt_tx p3)" and in5: "inputs p5 = inputs p4"
    and some: "inputs p4 \<noteq> []"
    using finalizeAllInputs_Inr [OF p5] tx4 by simp_all
  from extractTransaction_Inr [OF t] outs5 outs3
  show "outs t = \<lparr>to_address = a, out_value = amt\<rparr> #
        (if ?change > 546 then [\<lparr>to_address = c, out_value = ?change\<rparr>] else [])"
    by simp
  from extractTransaction_Inr [OF t] in5 vals4
  show "sum_list (map out_value (outs t)) \<le> ?total"
    by simp
  from some vals4 show "utxos \<noteq> []"
    by auto
qed

text \<open>
  The two finalizers hand the library an array where it takes a buffer, so
  \<^verbatim>\<open>finalizeInput\<close> with either of them returns no PSBT.
\<close>

lemma finalizeInput_redeemFinalizer:
  "finalizeInput i (redeemFinalizer s hs) p \<noteq> Inr p'"
  by (auto simp: finalizeInput_def redeemFinalizer_def Let_def
        split: if_splits list.splits sum.splits finalScriptWitness.splits)

lemma finalizeInput_refundFinalizer:
  "finalizeInput i (refundFinalizer hs) p \<noteq> Inr p'"
  by (auto simp: finalizeInput_def refundFinalizer_def Let_def
        split: if_splits list.splits sum.splits finalScriptWitness.splits)

section \<open>Facts about the escrow's calls\<close>

lemma after_call_cases:
  "after_call e c = e \<or>
   (\<not> claimed e \<and> \<not> refunded e \<and>
      (after_call e c = e\<lparr>claimed := True\<rparr> \<or> after_call e c = e\<lparr>refunded := True\<rparr>))"
  by (cases c)
     (auto simp: after_call_def EthEscrow_claim_def EthEscrow_refund_def split: option.splits)

lemma after_call_exclusive:
  "\<not> (claimed e \<and> refunded e) \<Longrightarrow> \<not> (claimed (after_call e c) \<and> refunded (after_call e c))"
  using after_call_cases [of e c] by auto

lemma after_call_claimed: "claimed e \<Longrightarrow> claimed (after_call e c)"
  using after_call_cases [of e c] by auto

lemma after_call_refunded: "refunded e \<Longrightarrow> refunded (after_call e c)"
  using after_call_cases [of e c] by auto

lemma after_calls_exclusive:
  "\<not> (claimed e \<and> refunded e) \<Longrightarrow>
   \<not> (claimed (after_calls e cs) \<and> refunded (after_calls e cs))"
proof (induction cs arbitrary: e)
  case Nil
  then show ?case by (simp add: after_calls_def)
next
  case (Cons c cs)
  have "\<not> (claimed (after_call e c) \<and> refunded (after_call e c))"
    by (rule after_call_exclusive [OF Cons.prems])
  then have "\<not> (claimed (after_calls (after_call e c) cs)
               \<and> refunded (after_calls (after_call e c) cs))"
    by (rule Cons.IH)
  then show ?case by (simp add: after_calls_def)
qed

lemma after_calls_claimed: "claimed e \<Longrightarrow> claimed (after_calls e cs)"
  unfolding after_calls_def
  by (induction cs arbitrary: e) (simp_all add: after_call_claimed)

lemma after_calls_refunded: "refunded e \<Longrightarrow> refunded (after_calls e cs)"
  unfolding after_calls_def
  by (induction cs arbitrary: e) (simp_all add: after_call_refunded)

lemma after_calls_append: "after_calls e (cs @ ds) = after_calls (after_calls e cs) ds"
  by (simp add: after_calls_def)

lemma constructor_open:
  "EthEscrow_constructor ev r h t = Inr e \<Longrightarrow> \<not> claimed e \<and> \<not> refunded e"
  by (auto simp: EthEscrow_constructor_def split: if_splits)

lemma settled_call_fails:
  "claimed e \<or> refunded e \<Longrightarrow> \<exists>msg. call_result c e = Inl msg"
  by (cases c) (auto simp: EthEscrow_claim_def EthEscrow_refund_def)

section \<open>The digests, evaluated\<close>

text \<open>
  The constants of SHA-256, computed once from their definition; evaluation uses the
  computed lists from here on.
\<close>

lemma H256_computed [code]:
  "H256 =
    [1779033703, 3144134277, 1013904242, 2773480762, 1359893119, 2600822924,
     528734635, 1541459225]"
  by code_simp

lemma K256_computed [code]:
  "K256 =
    [1116352408, 1899447441, 3049323471, 3921009573, 961987163, 1508970993,
     2453635748, 2870763221, 3624381080, 310598401, 607225278, 1426881987,
     1925078388, 2162078206, 2614888103, 3248222580, 3835390401, 4022224774,
     264347078, 604807628, 770255983, 1249150122, 1555081692, 1996064986,
     2554220882, 2821834349, 2952996808, 3210313671, 3336571891, 3584528711,
     113926993, 338241895, 666307205, 773529912, 1294757372, 1396182291,
     1695183700, 1986661051, 2177026350, 2456956037, 2730485921, 2820302411,
     3259730800, 3345764771, 3516065817, 3600352804, 4094571909, 275423344,
     430227734, 506948616, 659060556, 883997877, 958139571, 1322822218,
     1537002063, 1747873779, 1955562222, 2024104815, 2227730452, 2361852424,
     2428436474, 2756734187, 3204031479, 3329325298]"
  by code_simp

text \<open>The digests of the standards' test message \<^verbatim>\<open>abc\<close>.\<close>

lemma sha256_abc:
  "toHex (sha256 (toUtf8Bytes ''abc'')) =
     ''ba7816bf8f01cfea414140de5dae2223b00361a396177a9cb410ff61f20015ad''"
  by code_simp

lemma keccak256_abc:
  "toHex (keccak256 (toUtf8Bytes ''abc'')) =
     ''4e03657aea45a94fc7d47ba826c8d667c0d1e6e33a64a036ec44f58fa12d6c45''"
  by code_simp

section \<open>Facts about the sample swap\<close>

lemma sample_secret_hex: "toHex (replicate 32 42) = sample_secret"
  by code_simp

lemma sample_hashlock:
  "generateHashlock sample_secret =
     Some ''544e62cee8033709e389e5b2755343d0d0fa8c4850215cfb6331717e80d1aea3''"
  by code_simp



lemma sample_db_row: "rows sample_db (Suc 0) = Some sample_row"
  by (simp add: sample_db_def)

lemma sample_db_last_id: "last_id sample_db = Suc 0"
  by (simp add: sample_db_def)

lemma sample_hashlock_bytes:
  "bytes32FromHex ''0x544e62cee8033709e389e5b2755343d0d0fa8c4850215cfb6331717e80d1aea3'' =
     Some (sha256 (replicate 32 42))"
  by code_simp

lemma sample_wei: "getBigInt ''1000000000000000000'' = Some 1000000000000000000"
  by code_simp

lemma sample_fund_eth:
  "fund_eth 1700000010 sample_wallet sample_escrow_address (Suc 0) sample_server =
     (Inr sample_escrow_address, sample_funded)"
  by (simp add: fund_eth_def sample_server_def sample_db_row sample_wei
        EthEscrowManager_deployEscrow_def sample_chain_def
        sample_hashlock_bytes EthEscrow_constructor_def address0_def update_swap_def
        sample_row_def sample_funded_def sample_escrow_def)

lemma sample_escrow_address_given: "\<not> missing (Some sample_escrow_address)"
  by (simp add: missing_def sample_escrow_address_def)

lemma sample_funded_row:
  "rows (swaps_db sample_funded) (Suc 0) =
     Some (sample_row\<lparr>eth_funded := True, eth_escrow_address := Some sample_escrow_address,
             status := ''funded'', updated_at := 1700000010\<rparr>)"
  by (simp add: sample_funded_def)

lemma sample_funded_chain:
  "eth_chain sample_funded =
     \<lparr>contracts = [sample_escrow_address \<mapsto> sample_escrow],
      latest_timestamp = 1700000000, refusing = (\<lambda>a. None)\<rparr>"
  by (simp add: sample_funded_def sample_chain_def)

lemma sample_refund_on_chain:
  "EthEscrowManager_refund sample_wallet
      (at_block_time 1700003700 (eth_chain sample_funded)) sample_escrow_address =
     Inr (\<lparr>contracts = [sample_escrow_address \<mapsto> sample_escrow\<lparr>refunded := True\<rparr>],
           latest_timestamp = 1700003700, refusing = (\<lambda>a. None)\<rparr>,
          [Refunded sample_wallet 1000000000000000000,
           Transfer sample_wallet 1000000000000000000])"
  by (simp add: sample_funded_chain at_block_time_def EthEscrowManager_refund_def
        EthEscrow_refund_def sample_escrow_def)

section \<open>Facts about the sample lock\<close>

text \<open>
  The sample lock's output script is the one that pays to the SHA-256 digest of its redeem
  script, and the script that pays to the sample address is of the key-hash shape.
\<close>

lemma sample_scriptPubKey:
  "scriptPubKey sample_htlcScript = [0x00, 0x20] @ sha256 (redeemScript sample_htlcScript)"
  by code_simp

lemma sample_txids:
  "length (fromHex sample_txid) = 32" "length (fromHex sample_lock_txid) = 32"
  by code_simp+

lemma sample_redeemScript_shape:
  "\<not> isP2WPKH (redeemScript sample_htlcScript)" "\<not> isP2SH (redeemScript sample_htlcScript)"
  by code_simp+

lemma sample_address_shape: "isP2WPKH sample_address_script"
  by code_simp

lemma sample_addresses_differ: "sample_address \<noteq> address sample_htlcScript"
  by (simp add: sample_address_def sample_htlcScript_def)

section \<open>Facts about the read handlers\<close>

lemma map_of_delete_key: "map_of (delete_key k obj) k = None"
  by (induction obj) (auto simp: delete_key_def)

lemma select_swaps_rows:
  "(i, s) \<in> set (select_swaps f g db) \<Longrightarrow> rows db i = Some s"
  by (auto simp: select_swaps_def split: option.splits)

section \<open>The two digests of one secret text\<close>

lemma keccak_hashlock_of_text:
  "EthEscrowManager_generateHashlock ''0123456789abcdef0123456789abcdef'' =
     ''0x9a57067ee21cfc99ac55dbc3bc5e6f9461dbd7ffc60b79a12f3e93c9c987f0cf''"
  by code_simp

lemma sha256_of_text:
  "toHex (sha256 (toUtf8Bytes ''0123456789abcdef0123456789abcdef'')) =
     ''3eb1bd439947eb762998e566ccc2e099c791118b2f40579cc4f7da2b5061b7f9''"
  by code_simp

lemma keccak_hashlock_bytes:
  "bytes32FromHex ''0x9a57067ee21cfc99ac55dbc3bc5e6f9461dbd7ffc60b79a12f3e93c9c987f0cf'' =
     Some [0x9a, 0x57, 0x06, 0x7e, 0xe2, 0x1c, 0xfc, 0x99, 0xac, 0x55, 0xdb, 0xc3,
           0xbc, 0x5e, 0x6f, 0x94, 0x61, 0xdb, 0xd7, 0xff, 0xc6, 0x0b, 0x79, 0xa1,
           0x2f, 0x3e, 0x93, 0xc9, 0xc9, 0x87, 0xf0, 0xcf]"
  by code_simp

lemma text_is_32_bytes:
  "zeroPadValue (toUtf8Bytes ''0123456789abcdef0123456789abcdef'') 32 =
     Some (toUtf8Bytes ''0123456789abcdef0123456789abcdef'')"
  by (simp add: zeroPadValue_def toUtf8Bytes_def)

lemma sha256_is_not_keccak_hashlock:
  "sha256 (toUtf8Bytes ''0123456789abcdef0123456789abcdef'') \<noteq>
     [0x9a, 0x57, 0x06, 0x7e, 0xe2, 0x1c, 0xfc, 0x99, 0xac, 0x55, 0xdb, 0xc3,
      0xbc, 0x5e, 0x6f, 0x94, 0x61, 0xdb, 0xd7, 0xff, 0xc6, 0x0b, 0x79, 0xa1,
      0x2f, 0x3e, 0x93, 0xc9, 0xc9, 0x87, 0xf0, 0xcf]"
proof
  assume "sha256 (toUtf8Bytes ''0123456789abcdef0123456789abcdef'') =
     [0x9a, 0x57, 0x06, 0x7e, 0xe2, 0x1c, 0xfc, 0x99, 0xac, 0x55, 0xdb, 0xc3,
      0xbc, 0x5e, 0x6f, 0x94, 0x61, 0xdb, 0xd7, 0xff, 0xc6, 0x0b, 0x79, 0xa1,
      0x2f, 0x3e, 0x93, 0xc9, 0xc9, 0x87, 0xf0, 0xcf]"
  then have "toHex (sha256 (toUtf8Bytes ''0123456789abcdef0123456789abcdef'')) =
     toHex [0x9a, 0x57, 0x06, 0x7e, 0xe2, 0x1c, 0xfc, 0x99, 0xac, 0x55, 0xdb, 0xc3,
      0xbc, 0x5e, 0x6f, 0x94, 0x61, 0xdb, 0xd7, 0xff, 0xc6, 0x0b, 0x79, 0xa1,
      0x2f, 0x3e, 0x93, 0xc9, 0xc9, 0x87, 0xf0, 0xcf]"
    by simp
  also have "\<dots> = ''9a57067ee21cfc99ac55dbc3bc5e6f9461dbd7ffc60b79a12f3e93c9c987f0cf''"
    by code_simp
  finally show False
    by (simp add: sha256_of_text)
qed

section \<open>The claims\<close>

subsection \<open>C1: one hash function for every hashlock\<close>

text \<open>
  C1 does not hold of the code: \<^verbatim>\<open>EthEscrowManager.generateHashlock\<close> takes the
  Keccak-256 digest of the secret's text, while the escrow's \<^verbatim>\<open>claim\<close> (like the server's
  own \<^verbatim>\<open>generateHashlock\<close> and the script's \<^verbatim>\<open>OP_SHA256\<close>) takes a SHA-256 digest.
  The code at the secret text \<^verbatim>\<open>0123456789abcdef0123456789abcdef\<close>, which is 32 bytes
  long so that the manager's padding leaves it as it is: an escrow deployed under
  \<^verbatim>\<open>generateHashlock\<close> of that text is claimed by its recipient with the same text, and
  the claim reverts with \<^verbatim>\<open>Invalid secret\<close>; the two digests are the ones given. The
  last line is the other half of the encoding: a secret as the server makes it, 64 hex
  digits, is refused by the manager's \<^verbatim>\<open>claim\<close> before anything is sent, on any chain.
\<close>

theorem generateHashlock_claim_reverts:
  "(case EthEscrowManager_deployEscrow sample_wallet
           \<lparr>contracts = Map.empty, latest_timestamp = 1700000000,
            refusing = (\<lambda>a. None)\<rparr> sample_escrow_address
           ''0x00000000000000000000000000000000000000e2''
           (EthEscrowManager_generateHashlock ''0123456789abcdef0123456789abcdef'')
           1700003600 1000000000000000000 of
      Inl e \<Rightarrow> False
    | Inr (ch, a) \<Rightarrow>
        EthEscrowManager_claim ''0x00000000000000000000000000000000000000e2'' ch a
          ''0123456789abcdef0123456789abcdef'' = Inl (Reverted ''Invalid secret''))
   \<and> EthEscrowManager_generateHashlock ''0123456789abcdef0123456789abcdef'' =
       ''0x9a57067ee21cfc99ac55dbc3bc5e6f9461dbd7ffc60b79a12f3e93c9c987f0cf''
   \<and> zeroPadValue (toUtf8Bytes ''0123456789abcdef0123456789abcdef'') 32 =
       Some (toUtf8Bytes ''0123456789abcdef0123456789abcdef'')
   \<and> toHex (sha256 (toUtf8Bytes ''0123456789abcdef0123456789abcdef'')) =
       ''3eb1bd439947eb762998e566ccc2e099c791118b2f40579cc4f7da2b5061b7f9''
   \<and> EthEscrowManager_claim w ch' a' sample_secret = Inl EncodingError"
proof -
  have deploy: "EthEscrowManager_deployEscrow sample_wallet
           \<lparr>contracts = Map.empty, latest_timestamp = 1700000000,
            refusing = (\<lambda>a. None)\<rparr> sample_escrow_address
           ''0x00000000000000000000000000000000000000e2''
           (EthEscrowManager_generateHashlock ''0123456789abcdef0123456789abcdef'')
           1700003600 1000000000000000000 =
      Inr (\<lparr>contracts = [sample_escrow_address \<mapsto>
              \<lparr>deployer = sample_wallet,
               recipient = ''0x00000000000000000000000000000000000000e2'',
               hashlock =
                 [0x9a, 0x57, 0x06, 0x7e, 0xe2, 0x1c, 0xfc, 0x99, 0xac, 0x55, 0xdb, 0xc3,
                  0xbc, 0x5e, 0x6f, 0x94, 0x61, 0xdb, 0xd7, 0xff, 0xc6, 0x0b, 0x79, 0xa1,
                  0x2f, 0x3e, 0x93, 0xc9, 0xc9, 0x87, 0xf0, 0xcf],
               timeout = 1700003600, amount = 1000000000000000000,
               claimed = False, refunded = False\<rparr>],
             latest_timestamp = 1700000000, refusing = (\<lambda>a. None)\<rparr>, sample_escrow_address)"
    by (simp add: EthEscrowManager_deployEscrow_def keccak_hashlock_of_text
          keccak_hashlock_bytes EthEscrow_constructor_def address0_def)
  have claim: "EthEscrowManager_claim ''0x00000000000000000000000000000000000000e2''
      \<lparr>contracts = [sample_escrow_address \<mapsto>
              \<lparr>deployer = sample_wallet,
               recipient = ''0x00000000000000000000000000000000000000e2'',
               hashlock =
                 [0x9a, 0x57, 0x06, 0x7e, 0xe2, 0x1c, 0xfc, 0x99, 0xac, 0x55, 0xdb, 0xc3,
                  0xbc, 0x5e, 0x6f, 0x94, 0x61, 0xdb, 0xd7, 0xff, 0xc6, 0x0b, 0x79, 0xa1,
                  0x2f, 0x3e, 0x93, 0xc9, 0xc9, 0x87, 0xf0, 0xcf],
               timeout = 1700003600, amount = 1000000000000000000,
               claimed = False, refunded = False\<rparr>],
             latest_timestamp = 1700000000, refusing = (\<lambda>a. None)\<rparr> sample_escrow_address
      ''0123456789abcdef0123456789abcdef'' = Inl (Reverted ''Invalid secret'')"
    by (simp add: EthEscrowManager_claim_def text_is_32_bytes EthEscrow_claim_def
          sha256_is_not_keccak_hashlock)
  have long: "EthEscrowManager_claim w ch' a' sample_secret = Inl EncodingError"
    by (simp add: EthEscrowManager_claim_def zeroPadValue_def toUtf8Bytes_def sample_secret_def)
  show ?thesis
    unfolding deploy using claim long
    by (simp add: keccak_hashlock_of_text text_is_32_bytes sha256_of_text)
qed

subsection \<open>C2: marking a chain funded\<close>

text \<open>
  C2 does not hold of the code: each of the two funding handlers writes the status
  \<^verbatim>\<open>funded\<close> in the same \<^verbatim>\<open>UPDATE\<close> that sets its own chain's flag, whatever the other
  chain's flag is. The code at the sample swap, which is pending with neither chain funded:
  after \<^verbatim>\<open>fund-btc\<close> alone its status is \<^verbatim>\<open>funded\<close> while \<open>eth_funded\<close> is still false,
  and after \<^verbatim>\<open>fund-eth\<close> alone, on the pending sample swap again, its status is
  \<^verbatim>\<open>funded\<close> while \<open>btc_funded\<close> is still false.
\<close>

theorem fund_btc_alone_sets_funded:
  "map_option (\<lambda>s. (status s, btc_funded s, eth_funded s)) (rows sample_db 1)
       = Some (''pending'', False, False)
   \<and> fst (fund_btc 1700000005 1 (Some (toHex (redeemScript sample_htlcScript)))
            (Some (txid sample_htlcUtxo)) sample_db) = Inr ()
   \<and> map_option (\<lambda>s. (status s, btc_funded s, eth_funded s))
        (rows (snd (fund_btc 1700000005 1 (Some (toHex (redeemScript sample_htlcScript)))
                      (Some (txid sample_htlcUtxo)) sample_db)) 1)
       = Some (''funded'', True, False)
   \<and> fst (fund_eth 1700000010 sample_wallet sample_escrow_address 1 sample_server)
       = Inr sample_escrow_address
   \<and> map_option (\<lambda>s. (status s, btc_funded s, eth_funded s))
        (rows (swaps_db (snd (fund_eth 1700000010 sample_wallet sample_escrow_address 1
                                sample_server))) 1)
       = Some (''funded'', False, True)"
proof -
  have script: "\<not> missing (Some (toHex (redeemScript sample_htlcScript)))"
    by (simp add: missing_def toHex_def sample_htlcScript_def hexByte_def)
  have tx: "\<not> missing (Some (txid sample_htlcUtxo))"
    by (simp add: missing_def sample_htlcUtxo_def sample_lock_txid_def)
  show ?thesis
    by (simp add: sample_fund_eth sample_funded_row sample_db_row fund_btc_def update_swap_def
          script tx)
       (simp add: sample_row_def)
qed

subsection \<open>C3: when the coordinator records a refund\<close>

text \<open>
  C3, as the code has it. Whenever \<^verbatim>\<open>refund-eth\<close> answers with an error, the state is
  left as it was. It succeeds only for a swap that exists, whose escrow address is set,
  whose absolute expiration has passed on the server's clock (\<open>expiration \<le> now\<close>) and
  whose escrow accepted the refund on chain; the row then gets the status \<^verbatim>\<open>refunded\<close>.
  Under those four conditions it does succeed: the status the swap has before is not
  looked at, so it need not be \<^verbatim>\<open>funded\<close>.
\<close>

theorem refund_eth_conditions:
  "(\<forall>e sv'. refund_eth now w i sv = (Inl e, sv') \<longrightarrow> sv' = sv)
   \<and> (\<forall>sv'. refund_eth now w i sv = (Inr (), sv') \<longrightarrow>
        (\<exists>s ch' effs.
            rows (swaps_db sv) i = Some s \<and> \<not> missing (eth_escrow_address s)
            \<and> expiration s \<le> now
            \<and> EthEscrowManager_refund w (eth_chain sv) (the (eth_escrow_address s))
                = Inr (ch', effs)
            \<and> sv' = sv\<lparr>eth_chain := ch',
                        swaps_db := (swaps_db sv)\<lparr>rows := (rows (swaps_db sv))(i \<mapsto>
                           s\<lparr>status := ''refunded'', updated_at := now\<rparr>)\<rparr>\<rparr>))
   \<and> (rows (swaps_db sv) i = Some s \<and> \<not> missing (eth_escrow_address s)
        \<and> expiration s \<le> now
        \<and> EthEscrowManager_refund w (eth_chain sv) (the (eth_escrow_address s)) = Inr (ch', effs)
       \<longrightarrow> refund_eth now w i sv =
             (Inr (), sv\<lparr>eth_chain := ch',
                         swaps_db := (swaps_db sv)\<lparr>rows := (rows (swaps_db sv))(i \<mapsto>
                            s\<lparr>status := ''refunded'', updated_at := now\<rparr>)\<rparr>\<rparr>))"
  by (auto simp: refund_eth_def update_swap_def split: option.splits sum.splits if_splits)

text \<open>
  An instance: the sample swap, funded on the account chain, is refused a refund at
  1700003599, which leaves the state as it is, and is refunded at 1700003700, after its
  expiration 1700003600.
\<close>

theorem refund_eth_conditions_witness:
  "fund_eth 1700000010 sample_wallet sample_escrow_address 1 sample_server
     = (Inr sample_escrow_address, sample_funded)
   \<and> map_option status (rows (swaps_db sample_funded) 1) = Some ''funded''
   \<and> refund_eth 1700003599 sample_wallet 1
        (sample_funded\<lparr>eth_chain := at_block_time 1700003700 (eth_chain sample_funded)\<rparr>)
       = (Inl (BadRequest ''Timeout not yet reached''),
          sample_funded\<lparr>eth_chain := at_block_time 1700003700 (eth_chain sample_funded)\<rparr>)
   \<and> refund_eth 1700003700 sample_wallet 1
        (sample_funded\<lparr>eth_chain := at_block_time 1700003700 (eth_chain sample_funded)\<rparr>)
       = (Inr (),
          \<lparr>swaps_db = (swaps_db sample_funded)\<lparr>rows := (rows (swaps_db sample_funded))(1 \<mapsto>
              sample_row\<lparr>eth_funded := True, eth_escrow_address := Some sample_escrow_address,
                status := ''refunded'', updated_at := 1700003700\<rparr>)\<rparr>,
           eth_chain =
             \<lparr>contracts = [sample_escrow_address \<mapsto> sample_escrow\<lparr>refunded := True\<rparr>],
              latest_timestamp = 1700003700, refusing = (\<lambda>a. None)\<rparr>\<rparr>)"
proof -
  let ?s = "sample_row\<lparr>eth_funded := True, eth_escrow_address := Some sample_escrow_address,
             status := ''funded'', updated_at := 1700000010\<rparr>"
  let ?sv = "sample_funded\<lparr>eth_chain := at_block_time 1700003700 (eth_chain sample_funded)\<rparr>"
  have row: "rows (swaps_db ?sv) 1 = Some ?s"
    by (simp add: sample_funded_row)
  have addr: "\<not> missing (eth_escrow_address ?s)"
    by (simp add: sample_escrow_address_given)
  have exp: "expiration ?s \<le> 1700003700"
    by (simp add: sample_row_def)
  have chain: "EthEscrowManager_refund sample_wallet (eth_chain ?sv) (the (eth_escrow_address ?s))
      = Inr (\<lparr>contracts = [sample_escrow_address \<mapsto> sample_escrow\<lparr>refunded := True\<rparr>],
              latest_timestamp = 1700003700, refusing = (\<lambda>a. None)\<rparr>,
             [Refunded sample_wallet 1000000000000000000,
              Transfer sample_wallet 1000000000000000000])"
    by (simp add: sample_refund_on_chain)
  have "refund_eth 1700003700 sample_wallet 1 ?sv =
      (Inr (), ?sv\<lparr>eth_chain :=
                     \<lparr>contracts = [sample_escrow_address \<mapsto> sample_escrow\<lparr>refunded := True\<rparr>],
                      latest_timestamp = 1700003700, refusing = (\<lambda>a. None)\<rparr>,
                   swaps_db := (swaps_db ?sv)\<lparr>rows := (rows (swaps_db ?sv))(1 \<mapsto>
                      ?s\<lparr>status := ''refunded'', updated_at := 1700003700\<rparr>)\<rparr>\<rparr>)"
    using refund_eth_conditions
      [where now = 1700003700 and w = sample_wallet and i = 1 and sv = ?sv and s = ?s
         and ch' = "\<lparr>contracts = [sample_escrow_address \<mapsto> sample_escrow\<lparr>refunded := True\<rparr>],
                      latest_timestamp = 1700003700, refusing = (\<lambda>a. None)\<rparr>"
         and effs = "[Refunded sample_wallet 1000000000000000000,
                      Transfer sample_wallet 1000000000000000000]"]
      row addr exp chain
    by blast
  moreover have "fst (refund_eth 1700003599 sample_wallet 1 ?sv)
      = Inl (BadRequest ''Timeout not yet reached'')"
    using row addr by (simp add: refund_eth_def sample_row_def)
  then have "refund_eth 1700003599 sample_wallet 1 ?sv
      = (Inl (BadRequest ''Timeout not yet reached''), ?sv)"
    using refund_eth_conditions
      [where now = 1700003599 and w = sample_wallet and i = 1 and sv = ?sv, THEN conjunct1]
    by (metis prod.collapse)
  ultimately show ?thesis
    by (simp add: sample_fund_eth sample_funded_row)
qed

text \<open>
  C3 as stated fails on the status. The sample swap is funded on the account chain, then
  completed by \<^verbatim>\<open>submit-secret\<close> with its secret (which sends nothing to the escrow);
  after the expiration \<^verbatim>\<open>refund-eth\<close> succeeds and the completed swap is refunded.
\<close>

theorem refund_eth_completed_swap:
  "(let sv2 = sample_funded\<lparr>swaps_db :=
                 snd (submit_secret 1700000020 1 (Some sample_secret) (swaps_db sample_funded))\<rparr>;
        sv3 = sv2\<lparr>eth_chain := at_block_time 1700003700 (eth_chain sv2)\<rparr>
    in fund_eth 1700000010 sample_wallet sample_escrow_address 1 sample_server
         = (Inr sample_escrow_address, sample_funded)
       \<and> map_option status (rows (swaps_db sv3) 1) = Some ''completed''
       \<and> fst (refund_eth 1700003700 sample_wallet 1 sv3) = Inr ()
       \<and> map_option status (rows (swaps_db (snd (refund_eth 1700003700 sample_wallet 1 sv3))) 1)
           = Some ''refunded'')"
proof -
  have hl: "generateHashlock sample_secret = Some (hashlock sample_row)"
    by (simp add: sample_hashlock sample_row_def)
  have given: "\<not> missing (Some sample_secret)"
    by (simp add: missing_def sample_secret_def)
  have exp: "\<not> (1700003700 < expiration sample_row)"
    by (simp add: sample_row_def)
  have sub: "snd (submit_secret 1700000020 1 (Some sample_secret) (swaps_db sample_funded)) =
      (swaps_db sample_funded)\<lparr>rows := (rows (swaps_db sample_funded))(Suc 0 \<mapsto>
         sample_row\<lparr>eth_funded := True, eth_escrow_address := Some sample_escrow_address,
           secret_revealed := True, secret_revealed_at := Some 1700000020,
           status := ''completed'', updated_at := 1700000020\<rparr>)\<rparr>"
    by (simp add: submit_secret_def update_swap_def sample_funded_row hl given)
  show ?thesis
    unfolding Let_def sub
    by (simp add: sample_fund_eth exp sample_escrow_address_given refund_eth_def
          update_swap_def sample_refund_on_chain)
qed

subsection \<open>C4: the escrow's two flags\<close>

text \<open>
  C4, as the code has it. Take any escrow the constructor returns and any sequence \<open>cs\<close> of
  claim and refund calls on it, by any senders at any block times, and let \<open>e\<close> be the
  storage after them. Then \<open>claimed\<close> and \<open>refunded\<close> are not both true in \<open>e\<close>; a flag
  that is true in \<open>e\<close> is still true after any further calls \<open>ds\<close>; and once either flag is
  set every further call \<open>c\<close> reverts and leaves the storage as it is. The message of that
  revert is one of the two already-settled messages when the call passes the checks that
  stand before the flag checks: the sender check for \<open>claim\<close>, the sender check and the
  timeout check for \<open>refund\<close>. A call that fails one of those reverts with that check's
  message instead: \<^verbatim>\<open>Only recipient can call this\<close> for a claim by another sender,
  \<^verbatim>\<open>Only deployer can call this\<close> for a refund by another sender, and
  \<^verbatim>\<open>Timeout not yet reached\<close> for a refund by the deployer before the timeout.
\<close>

theorem escrow_flags_settled:
  assumes "EthEscrow_constructor ev0 r h t = Inr e0"
  shows "(let e = after_calls e0 cs in
     \<not> (claimed e \<and> refunded e)
     \<and> (claimed e \<longrightarrow> claimed (after_calls e0 (cs @ ds)))
     \<and> (refunded e \<longrightarrow> refunded (after_calls e0 (cs @ ds)))
     \<and> (claimed e \<or> refunded e \<longrightarrow>
          (\<exists>msg. call_result c e = Inl msg) \<and> after_call e c = e)
     \<and> (claimed e \<or> refunded e \<longrightarrow> msg_sender ev = recipient e \<longrightarrow>
          (\<exists>msg. EthEscrow_claim ev s e = Inl msg \<and> already_settled msg))
     \<and> (claimed e \<or> refunded e \<longrightarrow> msg_sender ev = deployer e \<longrightarrow>
          timeout e \<le> block_timestamp ev \<longrightarrow>
          (\<exists>msg. EthEscrow_refund ev e = Inl msg \<and> already_settled msg))
     \<and> (claimed e \<or> refunded e \<longrightarrow> msg_sender ev \<noteq> recipient e \<longrightarrow>
          EthEscrow_claim ev s e = Inl ''Only recipient can call this'')
     \<and> (claimed e \<or> refunded e \<longrightarrow> msg_sender ev \<noteq> deployer e \<longrightarrow>
          EthEscrow_refund ev e = Inl ''Only deployer can call this'')
     \<and> (claimed e \<or> refunded e \<longrightarrow> msg_sender ev = deployer e \<longrightarrow>
          block_timestamp ev < timeout e \<longrightarrow>
          EthEscrow_refund ev e = Inl ''Timeout not yet reached''))"
proof -
  define e where "e = after_calls e0 cs"
  have open0: "\<not> (claimed e0 \<and> refunded e0)"
    using constructor_open [OF assms] by simp
  have excl: "\<not> (claimed e \<and> refunded e)"
    unfolding e_def by (rule after_calls_exclusive [OF open0])
  have mono_c: "claimed e \<longrightarrow> claimed (after_calls e0 (cs @ ds))"
    unfolding e_def by (simp add: after_calls_append after_calls_claimed)
  have mono_r: "refunded e \<longrightarrow> refunded (after_calls e0 (cs @ ds))"
    unfolding e_def by (simp add: after_calls_append after_calls_refunded)
  have fails: "claimed e \<or> refunded e \<longrightarrow>
      (\<exists>msg. call_result c e = Inl msg) \<and> after_call e c = e"
    using settled_call_fails [of e c] by (auto simp: after_call_def)
  have cl: "claimed e \<or> refunded e \<longrightarrow> msg_sender ev = recipient e \<longrightarrow>
      (\<exists>msg. EthEscrow_claim ev s e = Inl msg \<and> already_settled msg)"
    by (auto simp: EthEscrow_claim_def already_settled_def)
  have rf: "claimed e \<or> refunded e \<longrightarrow> msg_sender ev = deployer e \<longrightarrow>
      timeout e \<le> block_timestamp ev \<longrightarrow>
      (\<exists>msg. EthEscrow_refund ev e = Inl msg \<and> already_settled msg)"
    by (auto simp: EthEscrow_refund_def already_settled_def)
  have other_cl: "claimed e \<or> refunded e \<longrightarrow> msg_sender ev \<noteq> recipient e \<longrightarrow>
      EthEscrow_claim ev s e = Inl ''Only recipient can call this''"
    by (simp add: EthEscrow_claim_def)
  have other_rf: "claimed e \<or> refunded e \<longrightarrow> msg_sender ev \<noteq> deployer e \<longrightarrow>
      EthEscrow_refund ev e = Inl ''Only deployer can call this''"
    by (simp add: EthEscrow_refund_def)
  have early: "claimed e \<or> refunded e \<longrightarrow> msg_sender ev = deployer e \<longrightarrow>
      block_timestamp ev < timeout e \<longrightarrow>
      EthEscrow_refund ev e = Inl ''Timeout not yet reached''"
    by (simp add: EthEscrow_refund_def)
  show ?thesis
    using excl mono_c mono_r fails cl rf other_cl other_rf early
    unfolding e_def [symmetric] Let_def by blast
qed

text \<open>
  An instance: an escrow built at block time 100 with timeout 200 and claimed at 150 by its
  recipient. The deployer's refund at 300 reverts with an already-settled message, its
  refund at 160 with the timeout check's message, a refund at 300 by the recipient with the
  deployer check's message, and a second claim at 300 by the deployer with the recipient
  check's message.
\<close>

theorem escrow_flags_settled_witness:
  "EthEscrow_constructor
      \<lparr>msg_sender = ''0x00000000000000000000000000000000000000d1'', block_timestamp = 100,
       refuses = (\<lambda>a. None), msg_value = 5\<rparr>
      ''0x00000000000000000000000000000000000000e2'' (sha256 (replicate 32 42)) 200
     = Inr \<lparr>deployer = ''0x00000000000000000000000000000000000000d1'',
            recipient = ''0x00000000000000000000000000000000000000e2'',
            hashlock = sha256 (replicate 32 42), timeout = 200, amount = 5,
            claimed = False, refunded = False\<rparr>
   \<and> (let e = after_calls
                 \<lparr>deployer = ''0x00000000000000000000000000000000000000d1'',
                  recipient = ''0x00000000000000000000000000000000000000e2'',
                  hashlock = sha256 (replicate 32 42), timeout = 200, amount = 5,
                  claimed = False, refunded = False\<rparr>
                 [Claim \<lparr>msg_sender = ''0x00000000000000000000000000000000000000e2'',
                         block_timestamp = 150, refuses = (\<lambda>a. None)\<rparr> (replicate 32 42)];
            late = \<lparr>msg_sender = ''0x00000000000000000000000000000000000000d1'',
                    block_timestamp = 300, refuses = (\<lambda>a. None)\<rparr>;
            early = \<lparr>msg_sender = ''0x00000000000000000000000000000000000000d1'',
                     block_timestamp = 160, refuses = (\<lambda>a. None)\<rparr>;
            other = \<lparr>msg_sender = ''0x00000000000000000000000000000000000000e2'',
                     block_timestamp = 300, refuses = (\<lambda>a. None)\<rparr>
        in claimed e \<and> \<not> refunded e
           \<and> (\<exists>msg. call_result (Refund late) e = Inl msg)
           \<and> after_call e (Refund late) = e
           \<and> (\<exists>msg. EthEscrow_refund late e = Inl msg \<and> already_settled msg)
           \<and> EthEscrow_refund early e = Inl ''Timeout not yet reached''
           \<and> EthEscrow_refund other e = Inl ''Only deployer can call this''
           \<and> EthEscrow_claim late (replicate 32 42) e = Inl ''Only recipient can call this'')"
proof -
  let ?e0 = "\<lparr>deployer = ''0x00000000000000000000000000000000000000d1'',
              recipient = ''0x00000000000000000000000000000000000000e2'',
              hashlock = sha256 (replicate 32 42), timeout = 200, amount = 5,
              claimed = False, refunded = False\<rparr>"
  let ?cs = "[Claim \<lparr>msg_sender = ''0x00000000000000000000000000000000000000e2'',
                     block_timestamp = 150, refuses = (\<lambda>a. None)\<rparr> (replicate 32 42)]"
  let ?late = "\<lparr>msg_sender = ''0x00000000000000000000000000000000000000d1'',
                block_timestamp = 300, refuses = (\<lambda>a. None)\<rparr>"
  let ?early = "\<lparr>msg_sender = ''0x00000000000000000000000000000000000000d1'',
                 block_timestamp = 160, refuses = (\<lambda>a. None)\<rparr>"
  let ?other = "\<lparr>msg_sender = ''0x00000000000000000000000000000000000000e2'',
                 block_timestamp = 300, refuses = (\<lambda>a. None)\<rparr>"
  have built: "EthEscrow_constructor
      \<lparr>msg_sender = ''0x00000000000000000000000000000000000000d1'', block_timestamp = 100,
       refuses = (\<lambda>a. None), msg_value = 5\<rparr>
      ''0x00000000000000000000000000000000000000e2'' (sha256 (replicate 32 42)) 200 = Inr ?e0"
    by (simp add: EthEscrow_constructor_def address0_def)
  have st: "after_calls ?e0 ?cs = ?e0\<lparr>claimed := True\<rparr>"
    by (simp add: after_calls_def after_call_def EthEscrow_claim_def)
  have late: "claimed (?e0\<lparr>claimed := True\<rparr>) \<and> \<not> refunded (?e0\<lparr>claimed := True\<rparr>)
      \<and> (\<exists>msg. call_result (Refund ?late) (?e0\<lparr>claimed := True\<rparr>) = Inl msg)
      \<and> after_call (?e0\<lparr>claimed := True\<rparr>) (Refund ?late) = ?e0\<lparr>claimed := True\<rparr>
      \<and> (\<exists>msg. EthEscrow_refund ?late (?e0\<lparr>claimed := True\<rparr>) = Inl msg
                \<and> already_settled msg)"
    using escrow_flags_settled [OF built, where cs = ?cs and ds = "[]" and c = "Refund ?late"
        and ev = ?late and s = "[]"]
    by (simp add: Let_def st)
  have early: "EthEscrow_refund ?early (?e0\<lparr>claimed := True\<rparr>) = Inl ''Timeout not yet reached''"
    using escrow_flags_settled [OF built, where cs = ?cs and ds = "[]" and c = "Refund ?early"
        and ev = ?early and s = "[]"]
    by (simp add: Let_def st)
  have other: "EthEscrow_refund ?other (?e0\<lparr>claimed := True\<rparr>)
      = Inl ''Only deployer can call this''"
    using escrow_flags_settled [OF built, where cs = ?cs and ds = "[]" and c = "Refund ?other"
        and ev = ?other and s = "[]"]
    by (simp add: Let_def st)
  have again: "EthEscrow_claim ?late (replicate 32 42) (?e0\<lparr>claimed := True\<rparr>)
      = Inl ''Only recipient can call this''"
    using escrow_flags_settled [OF built, where cs = ?cs and ds = "[]" and c = "Refund ?late"
        and ev = ?late and s = "replicate 32 42"]
    by (simp add: Let_def st)
  show ?thesis
    unfolding Let_def st using built late early other again by blast
qed

text \<open>
  C4 as stated fails on the message. On the same claimed escrow the deployer's refund at
  block time 160, before the timeout 200, reverts with the timeout check's message, which
  stands before the flag checks in \<^verbatim>\<open>refund\<close>'s modifier list.
\<close>

theorem settled_refund_before_timeout:
  "(let e = after_calls
                 \<lparr>deployer = ''0x00000000000000000000000000000000000000d1'',
                  recipient = ''0x00000000000000000000000000000000000000e2'',
                  hashlock = sha256 (replicate 32 42), timeout = 200, amount = 5,
                  claimed = False, refunded = False\<rparr>
                 [Claim \<lparr>msg_sender = ''0x00000000000000000000000000000000000000e2'',
                         block_timestamp = 150, refuses = (\<lambda>a. None)\<rparr> (replicate 32 42)]
    in claimed e
       \<and> EthEscrow_refund \<lparr>msg_sender = ''0x00000000000000000000000000000000000000d1'',
                            block_timestamp = 160, refuses = (\<lambda>a. None)\<rparr> e
           = Inl ''Timeout not yet reached''
       \<and> \<not> already_settled ''Timeout not yet reached'')"
  by (simp add: after_calls_def after_call_def EthEscrow_claim_def EthEscrow_refund_def
        already_settled_def)

subsection \<open>C5: when a claim succeeds\<close>

text \<open>
  C5, as the code has it. \<^verbatim>\<open>claim(secret)\<close> succeeds if and only if the sender is the
  recipient, neither flag is set, the SHA-256 digest of the secret is the stored hashlock,
  and the recipient's account takes the payment: the body ends with
  \<^verbatim>\<open>recipient.transfer(amount)\<close>, which reverts the whole call when the payment is not
  taken. The block time is no part of the condition: the statement holds for every \<open>ev\<close>,
  at or past the timeout too. When the call succeeds the new storage is the old one with
  \<open>claimed\<close> set, and the call emits the secret, emits \<open>Claimed\<close> and pays \<open>amount\<close> to
  the recipient. When the first four conditions hold and the payment is not taken, the call
  reverts with the revert data of the payment.
\<close>

theorem claim_succeeds_iff:
  "((\<exists>r. EthEscrow_claim ev s e = Inr r) \<longleftrightarrow>
      msg_sender ev = recipient e \<and> \<not> claimed e \<and> \<not> refunded e
      \<and> sha256 s = EthEscrow.hashlock e \<and> refuses ev (recipient e) = None)
   \<and> (msg_sender ev = recipient e \<and> \<not> claimed e \<and> \<not> refunded e
        \<and> sha256 s = EthEscrow.hashlock e \<and> refuses ev (recipient e) = None \<longrightarrow>
        EthEscrow_claim ev s e =
          Inr (e\<lparr>claimed := True\<rparr>,
               [SecretRevealed s, Claimed (recipient e) (amount e),
                Transfer (recipient e) (amount e)]))
   \<and> (msg_sender ev = recipient e \<and> \<not> claimed e \<and> \<not> refunded e
        \<and> sha256 s = EthEscrow.hashlock e \<and> refuses ev (recipient e) = Some d \<longrightarrow>
        EthEscrow_claim ev s e = Inl d)"
  by (auto simp: EthEscrow_claim_def split: option.splits)

text \<open>An instance past the timeout: timeout 200, claim at block time 250.\<close>

theorem claim_succeeds_iff_witness:
  "timeout \<lparr>deployer = ''0x00000000000000000000000000000000000000d1'',
            recipient = ''0x00000000000000000000000000000000000000e2'',
            hashlock = sha256 (replicate 32 42), timeout = 200, amount = 5,
            claimed = False, refunded = False\<rparr>
     \<le> block_timestamp \<lparr>msg_sender = ''0x00000000000000000000000000000000000000e2'',
                          block_timestamp = 250, refuses = (\<lambda>a. None)\<rparr>
   \<and> EthEscrow_claim
        \<lparr>msg_sender = ''0x00000000000000000000000000000000000000e2'', block_timestamp = 250,
         refuses = (\<lambda>a. None)\<rparr>
        (replicate 32 42)
        \<lparr>deployer = ''0x00000000000000000000000000000000000000d1'',
         recipient = ''0x00000000000000000000000000000000000000e2'',
         hashlock = sha256 (replicate 32 42), timeout = 200, amount = 5,
         claimed = False, refunded = False\<rparr>
     = Inr (\<lparr>deployer = ''0x00000000000000000000000000000000000000d1'',
             recipient = ''0x00000000000000000000000000000000000000e2'',
             hashlock = sha256 (replicate 32 42), timeout = 200, amount = 5,
             claimed = True, refunded = False\<rparr>,
            [SecretRevealed (replicate 32 42),
             Claimed ''0x00000000000000000000000000000000000000e2'' 5,
             Transfer ''0x00000000000000000000000000000000000000e2'' 5])"
  using claim_succeeds_iff
    [where ev = "\<lparr>msg_sender = ''0x00000000000000000000000000000000000000e2'',
                   block_timestamp = 250, refuses = (\<lambda>a. None)\<rparr>"
       and s = "replicate 32 42"
       and e = "\<lparr>deployer = ''0x00000000000000000000000000000000000000d1'',
                  recipient = ''0x00000000000000000000000000000000000000e2'',
                  hashlock = sha256 (replicate 32 42), timeout = 200, amount = 5,
                  claimed = False, refunded = False\<rparr>"]
  by simp

text \<open>
  C5 as stated fails on its ``if'' half. The recipient of this escrow is a contract that
  takes no payment (its revert data is empty). It calls \<^verbatim>\<open>claim\<close> with the secret: it is
  the recipient, neither flag is set and the digest of the secret is the hashlock, and the
  call reverts all the same.
\<close>

theorem claim_reverts_when_payment_refused:
  "(let e = \<lparr>deployer = ''0x00000000000000000000000000000000000000d1'',
             recipient = ''0x00000000000000000000000000000000000000e2'',
             hashlock = sha256 (replicate 32 42), timeout = 200, amount = 5,
             claimed = False, refunded = False\<rparr>;
        ev = \<lparr>msg_sender = ''0x00000000000000000000000000000000000000e2'',
              block_timestamp = 150,
              refuses = (\<lambda>a. if a = ''0x00000000000000000000000000000000000000e2''
                               then Some [] else None)\<rparr>
    in msg_sender ev = recipient e \<and> \<not> claimed e \<and> \<not> refunded e
       \<and> sha256 (replicate 32 42) = EthEscrow.hashlock e
       \<and> EthEscrow_claim ev (replicate 32 42) e = Inl [])"
  by (simp add: EthEscrow_claim_def)

subsection \<open>C6: the secret comes back out of a redeem transaction\<close>

text \<open>
  C6 does not hold of the code: \<^verbatim>\<open>buildRedeemTx\<close> returns no transaction, for any
  arguments, so there is nothing to take the secret back out of. Its finalizer hands
  \<^verbatim>\<open>finalizeInput\<close> the array \<^verbatim>\<open>script.toStack\<close> gives as \<^verbatim>\<open>finalScriptWitness\<close>,
  where the library takes the serialized witness, a buffer, and the call throws. The code at
  the sample lock, redeemed with the sample swap's secret by the recipient's key: every
  step before the finalizer goes through and the builder ends with that refusal. The last
  line is the array the finalizer makes for the signed input: the four items with the
  secret second.
\<close>

theorem buildRedeemTx_returns_nothing:
  "buildRedeemTx lib u hs recipientAddress s k \<noteq> Inr t
   \<and> buildRedeemTx sample_library sample_htlcUtxo sample_htlcScript sample_address
        (replicate 32 42) sample_key = Inl FinalScriptWitnessNotBuffer
   \<and> redeemFinalizer (replicate 32 42) sample_htlcScript
        \<lparr>witnessUtxo_script = scriptPubKey sample_htlcScript, witnessUtxo_value = 50000,
         witnessScript = Some (redeemScript sample_htlcScript),
         partialSig = [(sample_pubkey, replicate 71 0x30)]\<rparr>
       = Inr (WitnessArray [replicate 71 0x30, replicate 32 42, [0x01],
                            redeemScript sample_htlcScript])"
proof -
  have never: "buildRedeemTx lib u hs recipientAddress s k \<noteq> Inr t"
    by (auto simp: buildRedeemTx_def Let_def finalizeInput_redeemFinalizer split: sum.splits)
  have added: "addInput (txid sample_htlcUtxo) (vout sample_htlcUtxo)
      (scriptPubKey sample_htlcScript) (utxo_value sample_htlcUtxo)
      (Some (redeemScript sample_htlcScript)) 4294967295 new_psbt =
    Inr \<lparr>psbt_tx = \<lparr>locktime = 0,
                     ins = [\<lparr>hash = txid sample_htlcUtxo, index = 0, sequence = 4294967295,
                             witness = []\<rparr>],
                     outs = []\<rparr>,
         inputs = [\<lparr>witnessUtxo_script = scriptPubKey sample_htlcScript,
                    witnessUtxo_value = 50000,
                    witnessScript = Some (redeemScript sample_htlcScript),
                    partialSig = []\<rparr>]\<rparr>"
    by (simp add: addInput_def sample_redeemScript_shape new_psbt_def)
       (simp add: sample_htlcUtxo_def sample_txids)
  have sample: "buildRedeemTx sample_library sample_htlcUtxo sample_htlcScript sample_address
        (replicate 32 42) sample_key = Inl FinalScriptWitnessNotBuffer"
    unfolding buildRedeemTx_def added
    by (simp add: addOutput_def signInput_def finalizeInput_def redeemFinalizer_def
          isSatoshi_def sample_library_def sample_key_def sample_htlcUtxo_def)
  have stack: "redeemFinalizer (replicate 32 42) sample_htlcScript
        \<lparr>witnessUtxo_script = scriptPubKey sample_htlcScript, witnessUtxo_value = 50000,
         witnessScript = Some (redeemScript sample_htlcScript),
         partialSig = [(sample_pubkey, replicate 71 0x30)]\<rparr>
       = Inr (WitnessArray [replicate 71 0x30, replicate 32 42, [0x01],
                            redeemScript sample_htlcScript])"
    by (simp add: redeemFinalizer_def toStack_def)
  from never sample stack show ?thesis
    by blast
qed

subsection \<open>C7: the outputs of a funding transaction\<close>

text \<open>
  C7, as the code has it. Let \<open>totalInput\<close> be the sum of the input values and \<open>change\<close>
  be \<open>totalInput - amount - 1000\<close>. Every transaction \<^verbatim>\<open>buildFundingTx\<close> returns has first
  the output of exactly \<open>amount\<close> to the lock address, then a change output of \<open>change\<close> if
  and only if \<open>change\<close> exceeds 546, and nothing else; what the inputs hold beyond the
  outputs, the fee paid, is 1000 with a change output and \<open>totalInput - amount\<close> without.
  The builder has no check of its own that the inputs cover amount plus fee. It fails
  whenever \<open>totalInput\<close> is below \<open>amount\<close>, since the library refuses outputs that spend
  more than the inputs hold, and it fails when it is given no UTXO at all; between
  \<open>amount\<close> and \<open>amount + 1000\<close> the inputs are not refused for being too small.
\<close>

theorem buildFundingTx_outputs:
  "(let totalInput = sum_list (map utxo_value utxos);
        change = totalInput - amt - 1000
    in (\<forall>t. buildFundingTx lib utxos lockAddress amt changeAddress k = Inr t \<longrightarrow>
            outs t = \<lparr>to_address = lockAddress, out_value = amt\<rparr> #
                     (if change > 546 then [\<lparr>to_address = changeAddress, out_value = change\<rparr>]
                      else [])
            \<and> totalInput - sum_list (map out_value (outs t)) =
                  (if change > 546 then 1000 else totalInput - amt)
            \<and> amt \<le> totalInput)
       \<and> (totalInput < amt \<or> utxos = [] \<longrightarrow>
            (\<exists>e. buildFundingTx lib utxos lockAddress amt changeAddress k = Inl e)))"
proof -
  let ?total = "sum_list (map utxo_value utxos)"
  let ?change = "?total - amt - 1000"
  let ?r = "buildFundingTx lib utxos lockAddress amt changeAddress k"
  have returned: "outs t = \<lparr>to_address = lockAddress, out_value = amt\<rparr> #
                     (if ?change > 546 then [\<lparr>to_address = changeAddress, out_value = ?change\<rparr>]
                      else [])
            \<and> ?total - sum_list (map out_value (outs t)) =
                  (if ?change > 546 then 1000 else ?total - amt)
            \<and> amt \<le> ?total \<and> utxos \<noteq> []" if "?r = Inr t" for t
  proof -
    note o = buildFundingTx_Inr(1) [OF that] and le = buildFundingTx_Inr(2) [OF that]
      and some = buildFundingTx_Inr(3) [OF that]
    have fee: "?total - sum_list (map out_value (outs t)) =
        (if ?change > 546 then 1000 else ?total - amt)"
      by (simp add: o)
    have "amt \<le> ?total"
      using le by (simp add: o split: if_splits)
    with o fee some show ?thesis
      by simp
  qed
  have fails: "\<exists>e. ?r = Inl e" if "?total < amt \<or> utxos = []"
  proof (cases ?r)
    case (Inl e)
    then show ?thesis by blast
  next
    case (Inr t)
    with returned [of t] that show ?thesis by auto
  qed
  from returned fails show ?thesis
    unfolding Let_def by blast
qed

text \<open>
  An instance: one output of 5000 satoshis paid to the sample key, spent with that key,
  locks 1000 in the sample lock and leaves a change output of 3000 to the key's address
  and a fee of 1000.
\<close>

theorem buildFundingTx_outputs_witness:
  "buildFundingTx sample_library [sample_utxo 5000] (address sample_htlcScript) 1000
      sample_address sample_key
     = Inr \<lparr>locktime = 0,
            ins = [\<lparr>hash = txid (sample_utxo 5000), index = 0, sequence = 4294967295,
                    witness = [replicate 71 0x30, sample_pubkey]\<rparr>],
            outs = [\<lparr>to_address = address sample_htlcScript, out_value = 1000\<rparr>,
                    \<lparr>to_address = sample_address, out_value = 3000\<rparr>]\<rparr>
   \<and> sum_list (map utxo_value [sample_utxo 5000])
       - sum_list (map out_value
           [\<lparr>to_address = address sample_htlcScript, out_value = 1000\<rparr>,
            \<lparr>to_address = sample_address, out_value = 3000\<rparr>]) = 1000"
proof -
  have added: "addInputs [sample_utxo 5000] new_psbt 0 =
    Inr (\<lparr>psbt_tx = \<lparr>locktime = 0,
                      ins = [\<lparr>hash = txid (sample_utxo 5000), index = 0,
                              sequence = 4294967295, witness = []\<rparr>],
                      outs = []\<rparr>,
          inputs = [\<lparr>witnessUtxo_script = sample_address_script, witnessUtxo_value = 5000,
                     witnessScript = None, partialSig = []\<rparr>]\<rparr>, 5000)"
    by (simp add: addInput_def new_psbt_def sample_utxo_def sample_txids)
  have built: "buildFundingTx sample_library [sample_utxo 5000] (address sample_htlcScript) 1000
      sample_address sample_key
     = Inr \<lparr>locktime = 0,
            ins = [\<lparr>hash = txid (sample_utxo 5000), index = 0, sequence = 4294967295,
                    witness = [replicate 71 0x30, sample_pubkey]\<rparr>],
            outs = [\<lparr>to_address = address sample_htlcScript, out_value = 1000\<rparr>,
                    \<lparr>to_address = sample_address, out_value = 3000\<rparr>]\<rparr>"
    unfolding buildFundingTx_def added
    by (simp add: addOutput_def signInput_def finalizeAllInputs_def finalizeInput_def
          defaultFinalizer_def extractTransaction_def isSatoshi_def sample_library_def
          sample_key_def sample_addresses_differ sample_addresses_differ [symmetric])
  have "outs \<lparr>locktime = 0,
            ins = [\<lparr>hash = txid (sample_utxo 5000), index = 0, sequence = 4294967295,
                    witness = [replicate 71 0x30, sample_pubkey]\<rparr>],
            outs = [\<lparr>to_address = address sample_htlcScript, out_value = 1000\<rparr>,
                    \<lparr>to_address = sample_address, out_value = 3000\<rparr>]\<rparr>
       = \<lparr>to_address = address sample_htlcScript, out_value = 1000\<rparr> #
         (if sum_list (map utxo_value [sample_utxo 5000]) - 1000 - 1000 > 546
          then [\<lparr>to_address = sample_address,
                 out_value = sum_list (map utxo_value [sample_utxo 5000]) - 1000 - 1000\<rparr>]
          else [])
     \<and> sum_list (map utxo_value [sample_utxo 5000])
         - sum_list (map out_value (outs \<lparr>locktime = 0,
            ins = [\<lparr>hash = txid (sample_utxo 5000), index = 0, sequence = 4294967295,
                    witness = [replicate 71 0x30, sample_pubkey]\<rparr>],
            outs = [\<lparr>to_address = address sample_htlcScript, out_value = 1000\<rparr>,
                    \<lparr>to_address = sample_address, out_value = 3000\<rparr>]\<rparr>))
         = (if sum_list (map utxo_value [sample_utxo 5000]) - 1000 - 1000 > 546
            then 1000 else sum_list (map utxo_value [sample_utxo 5000]) - 1000)"
    using buildFundingTx_outputs
      [where lib = sample_library and utxos = "[sample_utxo 5000]"
         and lockAddress = "address sample_htlcScript" and amt = 1000
         and changeAddress = sample_address and k = sample_key]
      built
    unfolding Let_def by blast
  with built show ?thesis
    by (simp add: sample_utxo_def)
qed

text \<open>
  C7 as stated fails on its last part. One output of 1500 satoshis does not cover amount
  1000 plus the fee 1000, and \<^verbatim>\<open>buildFundingTx\<close> returns a transaction all the same: the
  lock output alone, paying a fee of 500.
\<close>

theorem buildFundingTx_underfunded:
  "sum_list (map utxo_value [sample_utxo 1500]) < 1000 + 1000
   \<and> buildFundingTx sample_library [sample_utxo 1500] (address sample_htlcScript) 1000
        sample_address sample_key
       = Inr \<lparr>locktime = 0,
              ins = [\<lparr>hash = txid (sample_utxo 1500), index = 0, sequence = 4294967295,
                      witness = [replicate 71 0x30, sample_pubkey]\<rparr>],
              outs = [\<lparr>to_address = address sample_htlcScript, out_value = 1000\<rparr>]\<rparr>"
proof -
  have added: "addInputs [sample_utxo 1500] new_psbt 0 =
    Inr (\<lparr>psbt_tx = \<lparr>locktime = 0,
                      ins = [\<lparr>hash = txid (sample_utxo 1500), index = 0,
                              sequence = 4294967295, witness = []\<rparr>],
                      outs = []\<rparr>,
          inputs = [\<lparr>witnessUtxo_script = sample_address_script, witnessUtxo_value = 1500,
                     witnessScript = None, partialSig = []\<rparr>]\<rparr>, 1500)"
    by (simp add: addInput_def new_psbt_def sample_utxo_def sample_txids)
  have "buildFundingTx sample_library [sample_utxo 1500] (address sample_htlcScript) 1000
        sample_address sample_key
       = Inr \<lparr>locktime = 0,
              ins = [\<lparr>hash = txid (sample_utxo 1500), index = 0, sequence = 4294967295,
                      witness = [replicate 71 0x30, sample_pubkey]\<rparr>],
              outs = [\<lparr>to_address = address sample_htlcScript, out_value = 1000\<rparr>]\<rparr>"
    unfolding buildFundingTx_def added
    by (simp add: addOutput_def signInput_def finalizeAllInputs_def finalizeInput_def
          defaultFinalizer_def extractTransaction_def isSatoshi_def sample_library_def
          sample_key_def sample_addresses_differ sample_addresses_differ [symmetric])
  then show ?thesis
    by (simp add: sample_utxo_def)
qed

subsection \<open>C8: a secret that does not match\<close>



subsection \<open>C9: a refund transaction reveals no secret\<close>

text \<open>
  C9 does not hold of the code as a statement about transactions \<^verbatim>\<open>buildRefundTx\<close>
  produces: it returns no transaction, for any arguments. Its finalizer hands
  \<^verbatim>\<open>finalizeInput\<close> an array as \<^verbatim>\<open>finalScriptWitness\<close> where the library takes a buffer,
  as the finalizer of \<^verbatim>\<open>buildRedeemTx\<close> does, and the call throws. The code at the sample
  lock, refunded by the refunder's key with the time-lock of the script: every step before
  the finalizer goes through and the builder ends with that refusal. The last two lines are
  the array the finalizer makes for the signed input, three items, and what
  \<^verbatim>\<open>extractSecretFromTx\<close> finds in a transaction whose one input carries them: nothing.
\<close>

theorem buildRefundTx_returns_nothing:
  "buildRefundTx lib u hs refundAddress k lt \<noteq> Inr t
   \<and> buildRefundTx sample_library sample_htlcUtxo sample_htlcScript sample_address
        sample_refund_key 1700003600 = Inl FinalScriptWitnessNotBuffer
   \<and> refundFinalizer sample_htlcScript
        \<lparr>witnessUtxo_script = scriptPubKey sample_htlcScript, witnessUtxo_value = 50000,
         witnessScript = Some (redeemScript sample_htlcScript),
         partialSig = [(sample_refund_pubkey, replicate 71 0x31)]\<rparr>
       = Inr (WitnessArray [replicate 71 0x31, [0x00], redeemScript sample_htlcScript])
   \<and> extractSecretFromTx
        \<lparr>locktime = 1700003600,
         ins = [\<lparr>hash = txid sample_htlcUtxo, index = 0, sequence = 4294967294,
                 witness = [replicate 71 0x31, [0x00], redeemScript sample_htlcScript]\<rparr>],
         outs = [\<lparr>to_address = sample_address, out_value = 49000\<rparr>]\<rparr> = None"
proof -
  have never: "buildRefundTx lib u hs refundAddress k lt \<noteq> Inr t"
    by (auto simp: buildRefundTx_def Let_def finalizeInput_refundFinalizer split: sum.splits)
  have added: "addInput (txid sample_htlcUtxo) (vout sample_htlcUtxo)
      (scriptPubKey sample_htlcScript) (utxo_value sample_htlcUtxo)
      (Some (redeemScript sample_htlcScript)) 4294967294
      \<lparr>psbt_tx = \<lparr>locktime = 1700003600, ins = [], outs = []\<rparr>, inputs = []\<rparr> =
    Inr \<lparr>psbt_tx = \<lparr>locktime = 1700003600,
                     ins = [\<lparr>hash = txid sample_htlcUtxo, index = 0, sequence = 4294967294,
                             witness = []\<rparr>],
                     outs = []\<rparr>,
         inputs = [\<lparr>witnessUtxo_script = scriptPubKey sample_htlcScript,
                    witnessUtxo_value = 50000,
                    witnessScript = Some (redeemScript sample_htlcScript),
                    partialSig = []\<rparr>]\<rparr>"
    by (simp add: addInput_def sample_redeemScript_shape)
       (simp add: sample_htlcUtxo_def sample_txids)
  have locked: "setLocktime 1700003600 new_psbt =
      Inr \<lparr>psbt_tx = \<lparr>locktime = 1700003600, ins = [], outs = []\<rparr>, inputs = []\<rparr>"
    by (simp add: setLocktime_def new_psbt_def)
  have sample: "buildRefundTx sample_library sample_htlcUtxo sample_htlcScript sample_address
        sample_refund_key 1700003600 = Inl FinalScriptWitnessNotBuffer"
    unfolding buildRefundTx_def locked sum.case added
    by (simp add: addOutput_def signInput_def finalizeInput_def refundFinalizer_def
          isSatoshi_def sample_library_def sample_refund_key_def sample_htlcUtxo_def)
  have stack: "refundFinalizer sample_htlcScript
        \<lparr>witnessUtxo_script = scriptPubKey sample_htlcScript, witnessUtxo_value = 50000,
         witnessScript = Some (redeemScript sample_htlcScript),
         partialSig = [(sample_refund_pubkey, replicate 71 0x31)]\<rparr>
       = Inr (WitnessArray [replicate 71 0x31, [0x00], redeemScript sample_htlcScript])"
    by (simp add: refundFinalizer_def toStack_def)
  have none: "extractSecretFromTx
        \<lparr>locktime = 1700003600,
         ins = [\<lparr>hash = txid sample_htlcUtxo, index = 0, sequence = 4294967294,
                 witness = [replicate 71 0x31, [0x00], redeemScript sample_htlcScript]\<rparr>],
         outs = [\<lparr>to_address = sample_address, out_value = 49000\<rparr>]\<rparr> = None"
    by (simp add: extractSecretFromTx_def)
  from never sample stack none show ?thesis
    by blast
qed

subsection \<open>C10: the reads do not show an unrevealed secret\<close>

text \<open>
  C10. For a swap whose \<open>secret_revealed\<close> is false, the object \<^verbatim>\<open>GET /swap/:id\<close> answers
  with has no key \<^verbatim>\<open>secret\<close>. \<^verbatim>\<open>GET /swaps\<close>, under any filters, answers with one
  object for each row it selects, in the same order; each selected row is a row of the
  table, and the object of a row whose \<open>secret_revealed\<close> is false has no key
  \<^verbatim>\<open>secret\<close>.
\<close>

theorem reads_hide_unrevealed_secret:
  "(rows db i = Some s \<and> \<not> secret_revealed s \<longrightarrow>
      (\<exists>obj. get_swap i db = Inr obj \<and> map_of obj ''secret'' = None))
   \<and> length (get_swaps f g db) = length (select_swaps f g db)
   \<and> (\<forall>k < length (select_swaps f g db).
        rows db (fst (select_swaps f g db ! k)) = Some (snd (select_swaps f g db ! k))
        \<and> (\<not> secret_revealed (snd (select_swaps f g db ! k)) \<longrightarrow>
             map_of (get_swaps f g db ! k) ''secret'' = None))"
proof -
  have one: "rows db i = Some s \<and> \<not> secret_revealed s \<longrightarrow>
      (\<exists>obj. get_swap i db = Inr obj \<and> map_of obj ''secret'' = None)"
    by (simp add: get_swap_def map_of_delete_key)
  have len: "length (get_swaps f g db) = length (select_swaps f g db)"
    by (simp add: get_swaps_def)
  have all: "\<forall>k < length (select_swaps f g db).
        rows db (fst (select_swaps f g db ! k)) = Some (snd (select_swaps f g db ! k))
        \<and> (\<not> secret_revealed (snd (select_swaps f g db ! k)) \<longrightarrow>
             map_of (get_swaps f g db ! k) ''secret'' = None)"
  proof (intro allI impI)
    fix k assume k: "k < length (select_swaps f g db)"
    then have "select_swaps f g db ! k \<in> set (select_swaps f g db)"
      by simp
    then have "(fst (select_swaps f g db ! k), snd (select_swaps f g db ! k))
        \<in> set (select_swaps f g db)"
      by simp
    then have r: "rows db (fst (select_swaps f g db ! k)) = Some (snd (select_swaps f g db ! k))"
      by (rule select_swaps_rows)
    have "\<not> secret_revealed (snd (select_swaps f g db ! k)) \<longrightarrow>
             map_of (get_swaps f g db ! k) ''secret'' = None"
      using k by (simp add: get_swaps_def map_of_delete_key)
    with r show "rows db (fst (select_swaps f g db ! k)) = Some (snd (select_swaps f g db ! k))
        \<and> (\<not> secret_revealed (snd (select_swaps f g db ! k)) \<longrightarrow>
             map_of (get_swaps f g db ! k) ''secret'' = None)"
      by simp
  qed
  from one len all show ?thesis by simp
qed

text \<open>
  An instance on the sample table: its one swap holds a secret that is not revealed, and
  neither read shows it.
\<close>

theorem reads_hide_unrevealed_secret_witness:
  "secret sample_row = Some sample_secret
   \<and> (\<exists>obj. get_swap 1 sample_db = Inr obj \<and> map_of obj ''secret'' = None)
   \<and> select_swaps None None sample_db = [(1, sample_row)]
   \<and> length (get_swaps None None sample_db) = 1
   \<and> map_of (get_swaps None None sample_db ! 0) ''secret'' = None"
proof -
  have row: "rows sample_db 1 = Some sample_row"
    by (simp add: sample_db_row)
  have unrevealed: "\<not> secret_revealed sample_row" and sec: "secret sample_row = Some sample_secret"
    by (simp_all add: sample_row_def sample_secret_def)
  have sel: "select_swaps None None sample_db = [(1, sample_row)]"
    by (simp add: select_swaps_def sample_db_last_id sample_db_row missing_def)
  note t = reads_hide_unrevealed_secret
    [where db = sample_db and i = 1 and s = sample_row and f = None and g = None]
  have one: "\<exists>obj. get_swap 1 sample_db = Inr obj \<and> map_of obj ''secret'' = None"
    using t [THEN conjunct1] row unrevealed by blast
  have len: "length (get_swaps None None sample_db) = 1"
    using t [THEN conjunct2, THEN conjunct1] sel by simp
  have "map_of (get_swaps None None sample_db ! 0) ''secret'' = None"
    using t [THEN conjunct2, THEN conjunct2] sel unrevealed by simp
  with sec one sel len show ?thesis
    by blast
qed

end
